theory Spec2Isabelle
  imports Main "HOL-Library.AList" "HOL-Library.Multiset" "HOL-Library.Sublist"
begin

section \<open>Data model\<close>

text \<open>
  The wire format \<^verbatim>\<open>SerializedSceneState\<close>: a list of entities, each with an id and an
  ordered list of components; a component is a numeric class id and a value. The value
  is an object; the only field the controller reads is \<^verbatim>\<open>assetId\<close>, which may be absent.
\<close>

type_synonym AssetId = string

record ComponentValue =
  assetId :: "AssetId option"
  payload :: string

record Component =
  ctype :: int
  cvalue :: ComponentValue

record Entity =
  eid :: string
  components :: "Component list"

record SerializedSceneState =
  entities :: "Entity list"

datatype StorableSceneState = Storable "Entity list"

datatype SceneStateDefinition = SceneStateDefinition "Entity list"

type_synonym Buffer = string
type_synonym Blob = string

record ContentMapping =
  mfile :: string
  mhash :: string

record Asset =
  baseUrl :: string
  mappings :: "ContentMapping list"
  asset_rest :: string

record BuilderAsset =
  builder_asset_id :: AssetId
  builder_asset_rest :: string

record ExplorerIdentity =
  rawAddress :: string

record Display =
  display_title :: "string option"
  display_description :: "string option"
  navmapThumbnail :: "string option"

record Source =
  src_rotation :: "string option"
  src_layout :: "(nat \<times> nat) option"
  src_point :: "string option"

record SceneInfo =
  scene_base :: string
  scene_parcels :: "string list"

record SceneJson =
  display :: "Display option"
  source :: "Source option"
  scene :: SceneInfo
  scene_json_rest :: string

record SceneDeploymentSourceMetadata =
  md_origin :: string
  md_version :: nat
  md_projectId :: string
  md_rotation :: string
  md_layout :: "nat \<times> nat"
  md_point :: string

record Project =
  project_id :: string
  project_title :: string
  project_description :: string
  creation_coords :: "string option"

record BuilderScene =
  scene_components :: "(string \<times> string) list"
  scene_rest :: string

record BuilderManifest =
  project :: Project
  bscene :: BuilderScene

text \<open>\<^verbatim>\<open>DeploymentResult\<close> is \<^verbatim>\<open>{ok: true}\<close> or \<^verbatim>\<open>{ok: false, error}\<close>.\<close>

datatype DeploymentResult = Ok | Failed string

section \<open>Errors\<close>

text \<open>
  What the code can throw: the \<^verbatim>\<open>Error\<close> of \<^verbatim>\<open>getIdentity\<close> and of the identity check
  in \<^verbatim>\<open>publishSceneState\<close>, the \<^verbatim>\<open>TypeError\<close> of reading a property of
  \<^verbatim>\<open>undefined\<close>, and whatever a collaborator throws or rejects with (kept as the text
  its interpolation into a template string produces). \<open>render\<close> is that interpolation.
\<close>

datatype error = IdentityNotFound | TypeError string | Rejected string

fun render :: "error \<Rightarrow> string" where
  "render IdentityNotFound = ''Error: Identity not found when trying to deploy an entity''"
| "render (TypeError m) = ''TypeError: '' @ m"
| "render (Rejected m) = m"

text \<open>\<^verbatim>\<open>String.prototype.includes\<close>.\<close>

fun str_includes :: "string \<Rightarrow> string \<Rightarrow> bool" where
  "str_includes [] p = (p = [])"
| "str_includes (c # cs) p = (prefix p (c # cs) \<or> str_includes cs p)"

section \<open>Programs with effects and exceptions\<close>

text \<open>
  A program takes the state and returns either the thrown error or a value, with the state
  it leaves behind: what was done before a throw stays done. Awaiting a promise that
  rejects is a throw at the \<^verbatim>\<open>await\<close>.
\<close>

type_synonym ('a, 'w) prog = "'w \<Rightarrow> (error + 'a) \<times> 'w"

definition ret :: "'a \<Rightarrow> ('a, 'w) prog" where
  "ret x = (\<lambda>w. (Inr x, w))"

definition throw :: "error \<Rightarrow> ('a, 'w) prog" where
  "throw e = (\<lambda>w. (Inl e, w))"

definition await :: "('a, 'w) prog \<Rightarrow> ('a \<Rightarrow> ('b, 'w) prog) \<Rightarrow> ('b, 'w) prog" where
  "await m f = (\<lambda>w. case m w of (Inl e, w') \<Rightarrow> (Inl e, w') | (Inr x, w') \<Rightarrow> f x w')"

definition try_catch :: "('a, 'w) prog \<Rightarrow> (error \<Rightarrow> ('a, 'w) prog) \<Rightarrow> ('a, 'w) prog" where
  "try_catch m h = (\<lambda>w. case m w of (Inl e, w') \<Rightarrow> h e w' | (Inr x, w') \<Rightarrow> (Inr x, w'))"

text \<open>A pure step that may throw.\<close>

definition lift :: "error + 'a \<Rightarrow> ('a, 'w) prog" where
  "lift r = (\<lambda>w. (r, w))"


section \<open>Collaborators\<close>

text \<open>
  Every call that leaves the controller is recorded, in order: the renderer
  (\<^verbatim>\<open>getUnityInstance()\<close>), the logger, the editor backend
  (\<^verbatim>\<open>BuilderServerAPIManager\<close>), the content server (\<^verbatim>\<open>ContentClient\<close>), \<^verbatim>\<open>fetch\<close> and
  the persistent storage. The renderer and the logger take a message and return; every
  other collaborator returns a value or throws. Constructing the clients (the lazy
  \<^verbatim>\<open>builderApiManager\<close>, \<^verbatim>\<open>getContentClient\<close>) only reads the store.
\<close>

record BuildEntityArgs =
  be_pointers :: "string list"
  be_files :: "(string \<times> Buffer) list"
  be_scene_json :: SceneJson
  be_source :: SceneDeploymentSourceMetadata

record DeployData =
  dd_files :: "(string \<times> Buffer) list"
  dd_entityId :: string
  dd_authChain :: string

record ManifestFromStateArgs =
  mf_id :: string
  mf_sceneId :: string
  mf_baseParcel :: string
  mf_parcels :: "string list"
  mf_title :: "string option"
  mf_description :: "string option"
  mf_rawAddress :: string
  mf_scene :: SerializedSceneState
  mf_layout :: "(nat \<times> nat) option"

datatype event =
    LogError string string
  | LogWarn string
  | SendBuilderProjectInfo string string bool
  | SendPublishSceneResult DeploymentResult
  | SendSceneAssets "BuilderAsset list"
  | GetBuilderManifestFromProjectId string
  | GetBuilderManifestFromLandCoordinates string
  | CreateProjectWithCoords string
  | UpdateProjectManifest BuilderManifest
  | UpdateProjectThumbnail string Blob
  | GetBuilderAssets "AssetId list"
  | GetConvertedAssets "AssetId list"
  | AddBuilderAssets "BuilderAsset list"
  | BuilderManifestFromSerializedState ManifestFromStateArgs
  | Fetch string
  | BuildEntity BuildEntityArgs
  | DeployEntity DeployData
  | FetchEntityById string
  | DownloadContent string
  | SaveToPersistentStorage string StorableSceneState
  | GetFromPersistentStorage string

text \<open>
  The constants of \<^verbatim>\<open>./types\<close> (\<^verbatim>\<open>CONTENT_PATH\<close>), of \<^verbatim>\<open>config\<close> (\<^verbatim>\<open>DEBUG\<close>) and of the ECS
  library (\<^verbatim>\<open>CLASS_ID.GLTF_SHAPE\<close>) are parameters.
\<close>

record Config =
  DEBUG :: bool
  GLTF_SHAPE :: int
  DEFINITION_FILE :: string
  BUNDLED_GAME_FILE :: string
  SCENE_FILE :: string
  SCENE_THUMBNAIL :: string
  ASSETS :: string
  MODELS_FOLDER :: string

text \<open>
  The editor backend client. Each method returns the value its promise resolves with, or
  the error it rejects with.
\<close>

record BuilderServerAPIManager =
  getBuilderManifestFromProjectId :: "string \<Rightarrow> ExplorerIdentity \<Rightarrow> error + BuilderManifest option"
  getBuilderManifestFromLandCoordinates :: "string \<Rightarrow> ExplorerIdentity \<Rightarrow> error + BuilderManifest option"
  createProjectWithCoordsApi :: "string \<Rightarrow> ExplorerIdentity \<Rightarrow> error + BuilderManifest option"
  updateProjectManifest :: "BuilderManifest \<Rightarrow> ExplorerIdentity \<Rightarrow> error + unit"
  updateProjectThumbnail :: "string \<Rightarrow> Blob \<Rightarrow> ExplorerIdentity \<Rightarrow> error + unit"
  getBuilderAssets :: "AssetId list \<Rightarrow> error + BuilderAsset list"
  getConvertedAssets :: "AssetId list \<Rightarrow> error + (AssetId \<times> Asset) list"
  addBuilderAssets :: "BuilderAsset list \<Rightarrow> error + unit"
  builderManifestFromSerializedState :: "ManifestFromStateArgs \<Rightarrow> error + BuilderManifest option"

text \<open>The content server client.\<close>

record ContentClient =
  buildEntity :: "BuildEntityArgs \<Rightarrow> error + (string \<times> Buffer) list \<times> string"
  deployEntity :: "DeployData \<Rightarrow> error + unit"
  fetchEntityById :: "string \<Rightarrow> error + ContentMapping list option"
  downloadContent :: "string \<Rightarrow> error + Buffer"

text \<open>
  The translators and helpers of the repository that the controller imports, each with
  the value it returns or the error it throws. A \<^verbatim>\<open>SceneTransformTranslator\<close> is determined
  by the \<^verbatim>\<open>source\<close> it is constructed from. The calls that
  \<^verbatim>\<open>toBuilderFromStateDefinitionFormat\<close> makes to the backend on its own are not recorded.
\<close>

type_synonym SceneTransformTranslator = "Source option"

record Translators =
  fromSerializedStateToStorableFormat :: "SerializedSceneState \<Rightarrow> error + StorableSceneState"
  fromStorableFormatToSerializedState :: "StorableSceneState \<Rightarrow> error + SerializedSceneState"
  fromBuildertoStateDefinitionFormat ::
    "BuilderScene \<Rightarrow> SceneTransformTranslator \<Rightarrow> error + SceneStateDefinition"
  toBuilderFromStateDefinitionFormat ::
    "SceneStateDefinition \<Rightarrow> BuilderManifest option \<Rightarrow> SceneTransformTranslator option
      \<Rightarrow> error + BuilderManifest"
  transformBuilderComponent :: "SceneTransformTranslator \<Rightarrow> string \<Rightarrow> error + string"
  serializeSceneState :: "SceneStateDefinition \<Rightarrow> error + SerializedSceneState"
  deserializeSceneState :: "SerializedSceneState \<Rightarrow> error + SceneStateDefinition"
  createGameFile :: "SerializedSceneState \<Rightarrow> (AssetId \<times> Asset) list \<Rightarrow> error + string"
  base64ToBlob :: "string \<Rightarrow> string \<Rightarrow> error + Blob"
  getLayoutFromParcels :: "string list \<Rightarrow> error + nat \<times> nat"

text \<open>
  The platform: \<^verbatim>\<open>fetch\<close>, \<^verbatim>\<open>Response.blob\<close>, \<^verbatim>\<open>blob-to-buffer\<close>, \<^verbatim>\<open>JSON\<close>,
  \<^verbatim>\<open>Authenticator.signPayload\<close>, \<^verbatim>\<open>uuid\<close> and the persistent storage, whose state has the
  type \<open>'st\<close>. \<open>first_settled\<close> is the scheduler's choice among the promises that reject
  under one \<^verbatim>\<open>Promise.all\<close>. The promise of \<^verbatim>\<open>fetch\<close> rejects when the request itself fails;
  when the server answers, with whatever status, it resolves with the response, whose
  \<^verbatim>\<open>ok\<close> tells whether the status is a success.
\<close>

record Response =
  response_ok :: bool
  response_status :: nat
  response_body :: string

record 'st Platform =
  fetch :: "string \<Rightarrow> error + Response"
  blob :: "Response \<Rightarrow> error + Blob"
  blobToBufferLib :: "Blob \<Rightarrow> error + Buffer"
  first_settled :: nat
  stringify_storable :: "StorableSceneState \<Rightarrow> Buffer"
  stringify_scene_json :: "SceneJson \<Rightarrow> Buffer"
  stringify_assets :: "BuilderAsset list \<Rightarrow> Buffer"
  parse_storable :: "Buffer \<Rightarrow> error + StorableSceneState"
  parse_assets :: "Buffer \<Rightarrow> error + BuilderAsset list"
  toString_base64 :: "Buffer \<Rightarrow> string"
  signPayload :: "ExplorerIdentity \<Rightarrow> string \<Rightarrow> error + string"
  uuid :: "nat \<Rightarrow> string"
  saveToPersistentStorage :: "string \<Rightarrow> StorableSceneState \<Rightarrow> 'st \<Rightarrow> error + 'st"
  getFromPersistentStorage :: "string \<Rightarrow> 'st \<Rightarrow> error + StorableSceneState option"

record 'st env =
  config :: Config
  builderApiManager :: BuilderServerAPIManager
  contentClient :: ContentClient
  translators :: Translators
  platform :: "'st Platform"

section \<open>State\<close>

text \<open>
  The controller's fields (\<^verbatim>\<open>builderManifest\<close> and \<^verbatim>\<open>transformTranslator\<close>, undefined until
  a project is loaded), the parcel data it reads through \<^verbatim>\<open>parcelIdentity\<close> (the scene
  metadata object is shared, and \<^verbatim>\<open>publishSceneState\<close> writes its \<^verbatim>\<open>display\<close>), the signed-in
  identity of the store, the persistent storage, and the calls made so far.
\<close>

record 'st world =
  currentIdentity :: "ExplorerIdentity option"
  builderManifest :: "BuilderManifest option"
  transformTranslator :: "SceneTransformTranslator option"
  sceneJsonData :: SceneJson
  land_sceneId :: string
  parcel_cid :: string
  mappings_contents :: "ContentMapping list"
  storage :: 'st
  trace :: "event list"

definition reads :: "('w \<Rightarrow> 'a) \<Rightarrow> ('a, 'w) prog" where
  "reads f = (\<lambda>w. (Inr (f w), w))"

definition modify :: "('w \<Rightarrow> 'w) \<Rightarrow> (unit, 'w) prog" where
  "modify f = (\<lambda>w. (Inr (), f w))"

text \<open>A call to a collaborator: it is recorded, and it returns or throws.\<close>

definition call :: "event \<Rightarrow> error + 'a \<Rightarrow> ('a, 'st world) prog" where
  "call ev r = (\<lambda>w. (r, w\<lparr>trace := trace w @ [ev]\<rparr>))"

definition emit :: "event \<Rightarrow> (unit, 'st world) prog" where
  "emit ev = call ev (Inr ())"


section \<open>The controller: asset resolution\<close>

text \<open>
  \<^verbatim>\<open>Set.prototype.add\<close>, on a set kept in insertion order: a value already present is
  not added again.
\<close>

definition set_add :: "'a \<Rightarrow> 'a list \<Rightarrow> 'a list" where
  "set_add x xs = (if x \<in> set xs then xs else xs @ [x])"

text \<open>An \<^verbatim>\<open>assetId\<close> is truthy when it is present and not the empty string.\<close>

definition truthy :: "string option \<Rightarrow> bool" where
  "truthy v = (case v of None \<Rightarrow> False | Some s \<Rightarrow> s \<noteq> [])"

text \<open>
  The loop that \<^verbatim>\<open>getAllBuilderAssets\<close> and \<^verbatim>\<open>getAllAssets\<close> both start with: for each
  entity, the components with \<^verbatim>\<open>type === CLASS_ID.GLTF_SHAPE && value.assetId\<close> add their
  asset id to the set.
\<close>

definition addEntityAssetIds :: "Config \<Rightarrow> Entity \<Rightarrow> AssetId list \<Rightarrow> AssetId list" where
  "addEntityAssetIds cfg entity assetIds =
     fold (\<lambda>c ids. case assetId (cvalue c) of Some a \<Rightarrow> set_add a ids | None \<Rightarrow> ids)
       (filter (\<lambda>c. ctype c = GLTF_SHAPE cfg \<and> truthy (assetId (cvalue c))) (components entity))
       assetIds"

definition collectAssetIds :: "Config \<Rightarrow> SerializedSceneState \<Rightarrow> AssetId list" where
  "collectAssetIds cfg state = fold (addEntityAssetIds cfg) (entities state) []"

definition getAllBuilderAssets ::
  "'st env \<Rightarrow> SerializedSceneState \<Rightarrow> (BuilderAsset list, 'st world) prog" where
  "getAllBuilderAssets env state =
     (let assetIds = collectAssetIds (config env) state
      in call (GetBuilderAssets assetIds) (getBuilderAssets (builderApiManager env) assetIds))"

definition getAllAssets ::
  "'st env \<Rightarrow> SerializedSceneState \<Rightarrow> ((AssetId \<times> Asset) list, 'st world) prog" where
  "getAllAssets env state =
     (let assetIds = collectAssetIds (config env) state
      in call (GetConvertedAssets assetIds) (getConvertedAssets (builderApiManager env) assetIds))"

definition sendAssetsToRenderer :: "'st env \<Rightarrow> SerializedSceneState \<Rightarrow> (string, 'st world) prog" where
  "sendAssetsToRenderer env state =
     await (getAllBuilderAssets env state) (\<lambda>assets.
     await (emit (SendSceneAssets assets)) (\<lambda>_.
     ret ''OK''))"

text \<open>The asset ids a scene state refers to: those of its GLTF shape components.\<close>

definition gltfAssetIds :: "Config \<Rightarrow> SerializedSceneState \<Rightarrow> AssetId set" where
  "gltfAssetIds cfg state =
     {a. \<exists>e \<in> set (entities state). \<exists>c \<in> set (components e).
           ctype c = GLTF_SHAPE cfg \<and> assetId (cvalue c) = Some a \<and> a \<noteq> []}"

section \<open>The controller: helpers\<close>

text \<open>
  \<^verbatim>\<open>getIdentity\<close> reads the signed-in identity of the store and throws when there is
  none.
\<close>

definition getIdentity :: "(ExplorerIdentity, 'st world) prog" where
  "getIdentity =
     await (reads currentIdentity) (\<lambda>identity.
     case identity of
       None \<Rightarrow> throw IdentityNotFound
     | Some i \<Rightarrow> ret i)"

definition getParcels :: "(string list, 'st world) prog" where
  "getParcels = reads (\<lambda>w. scene_parcels (scene (sceneJsonData w)))"

text \<open>
  A JavaScript \<^verbatim>\<open>Map\<close> is an association list in insertion order: \<^verbatim>\<open>set\<close> on a key
  already present replaces its value in place, on a new key it appends the entry.
  \<^verbatim>\<open>new Map(entries)\<close> sets the entries one after the other.
\<close>

definition new_Map :: "('k \<times> 'v) list \<Rightarrow> ('k \<times> 'v) list" where
  "new_Map kvs = fold (\<lambda>(k, v). AList.update k v) kvs []"

text \<open>
  \<^verbatim>\<open>blobToBuffer\<close> wraps the callback of the \<^verbatim>\<open>blob-to-buffer\<close> library in a promise: an
  error rejects it (the \<^verbatim>\<open>resolve\<close> that follows has no effect then), a buffer
  resolves it.
\<close>

definition blobToBuffer :: "'st Platform \<Rightarrow> Blob \<Rightarrow> error + Buffer" where
  "blobToBuffer pf b = blobToBufferLib pf b"

text \<open>
  \<^verbatim>\<open>Promise.all\<close>: the list of the values when every promise resolves, otherwise the
  error of the promise that rejects first.
\<close>

primrec rejections :: "(error + 'a) list \<Rightarrow> error list" where
  "rejections [] = []"
| "rejections (r # rs) = (case r of Inl e \<Rightarrow> e # rejections rs | Inr _ \<Rightarrow> rejections rs)"

primrec resolutions :: "(error + 'a) list \<Rightarrow> 'a list" where
  "resolutions [] = []"
| "resolutions (r # rs) = (case r of Inl _ \<Rightarrow> resolutions rs | Inr x \<Rightarrow> x # resolutions rs)"

definition promise_all :: "nat \<Rightarrow> (error + 'a) list \<Rightarrow> error + 'a list" where
  "promise_all first rs =
     (case rejections rs of
        [] \<Rightarrow> Inr (resolutions rs)
      | e # es \<Rightarrow> Inl ((e # es) ! (first mod length (e # es))))"

section \<open>The controller: downloading the asset files\<close>

text \<open>
  \<^verbatim>\<open>downloadAssetFiles\<close> first gathers the mappings of all assets in one map from path
  (\<^verbatim>\<open>${CONTENT_PATH.MODELS_FOLDER}/${file}\<close>) to url (\<^verbatim>\<open>${asset.baseUrl}/${hash}\<close>).
\<close>

definition allMappings :: "Config \<Rightarrow> (AssetId \<times> Asset) list \<Rightarrow> (string \<times> string) list" where
  "allMappings cfg assets =
     fold (\<lambda>asset m.
             fold (\<lambda>mp. AList.update (MODELS_FOLDER cfg @ ''/'' @ mfile mp)
                                      (baseUrl asset @ ''/'' @ mhash mp))
                  (mappings asset) m)
          (map snd assets) []"

text \<open>
  One download: \<^verbatim>\<open>fetch\<close>, then the body as a blob, then the blob as a buffer. The
  status of the response is not looked at.
\<close>

definition download :: "'st Platform \<Rightarrow> string \<times> string \<Rightarrow> error + string \<times> Buffer" where
  "download pf = (\<lambda>(path, url).
     case fetch pf url of
       Inl e \<Rightarrow> Inl e
     | Inr response \<Rightarrow>
         (case blob pf response of
            Inl e \<Rightarrow> Inl e
          | Inr b \<Rightarrow>
              (case blobToBuffer pf b of
                 Inl e \<Rightarrow> Inl e
               | Inr buffer \<Rightarrow> Inr (path, buffer))))"

text \<open>
  Mapping the entries to promises starts every download (each callback runs up to its
  first \<^verbatim>\<open>await\<close>, the call of \<^verbatim>\<open>fetch\<close>); \<^verbatim>\<open>Promise.all\<close> then waits for them.
\<close>

definition downloadAssetFiles ::
  "'st env \<Rightarrow> (AssetId \<times> Asset) list \<Rightarrow> ((string \<times> Buffer) list, 'st world) prog" where
  "downloadAssetFiles env assets =
     (let entries = allMappings (config env) assets in
      await (modify (\<lambda>w. w\<lparr>trace := trace w @ map (\<lambda>(path, url). Fetch url) entries\<rparr>)) (\<lambda>_.
      await (lift (promise_all (first_settled (platform env))
                     (map (download (platform env)) entries))) (\<lambda>result.
      ret (new_Map result))))"

section \<open>The controller: updating the project in the editor backend\<close>

text \<open>
  \<^verbatim>\<open>toBuilderFromStateDefinitionFormat\<close> receives the controller's manifest and translator
  as they are, defined or not. The manifest it resolves with gets the new title and
  description.
\<close>

definition updateProjectDetails ::
  "'st env \<Rightarrow> SerializedSceneState \<Rightarrow> string \<Rightarrow> string \<Rightarrow> Blob \<Rightarrow> (unit, 'st world) prog" where
  "updateProjectDetails env sceneState sceneName sceneDescription thumbnailBlob =
     await (lift (deserializeSceneState (translators env) sceneState)) (\<lambda>deserializedSceneState.
     await (reads builderManifest) (\<lambda>thisManifest.
     await (reads transformTranslator) (\<lambda>thisTranslator.
     await (lift (toBuilderFromStateDefinitionFormat (translators env)
                    deserializedSceneState thisManifest thisTranslator)) (\<lambda>converted.
     let manifest = converted\<lparr>project := (project converted)
                       \<lparr>project_title := sceneName, project_description := sceneDescription\<rparr>\<rparr> in
     await getIdentity (\<lambda>identity.
     await (call (UpdateProjectManifest manifest)
              (updateProjectManifest (builderApiManager env) manifest identity)) (\<lambda>_.
     await getIdentity (\<lambda>identity'.
     call (UpdateProjectThumbnail (project_id (project manifest)) thumbnailBlob)
       (updateProjectThumbnail (builderApiManager env) (project_id (project manifest))
          thumbnailBlob identity'))))))))"

section \<open>The controller: loading and creating projects\<close>

definition undefined_project :: error where
  "undefined_project = TypeError ''Cannot read properties of undefined (reading 'project')''"





section \<open>The controller: saving\<close>



section \<open>The controller: publishing\<close>

text \<open>The persistent storage: a write that succeeds leaves the new storage state.\<close>

definition savePersistent ::
  "'st env \<Rightarrow> string \<Rightarrow> StorableSceneState \<Rightarrow> (unit, 'st world) prog" where
  "savePersistent env key v = (\<lambda>w.
     case saveToPersistentStorage (platform env) key v (storage w) of
       Inl e \<Rightarrow> (Inl e, w\<lparr>trace := trace w @ [SaveToPersistentStorage key v]\<rparr>)
     | Inr st \<Rightarrow> (Inr (), w\<lparr>storage := st, trace := trace w @ [SaveToPersistentStorage key v]\<rparr>))"

definition loadPersistent ::
  "'st env \<Rightarrow> string \<Rightarrow> (StorableSceneState option, 'st world) prog" where
  "loadPersistent env key = (\<lambda>w.
     (getFromPersistentStorage (platform env) key (storage w),
      w\<lparr>trace := trace w @ [GetFromPersistentStorage key]\<rparr>))"

text \<open>
  The \<^verbatim>\<open>source\<close> of the deployed metadata: the placement of the scene metadata where it
  has one, otherwise \<^verbatim>\<open>'east'\<close>, the layout computed from the parcels and the base
  parcel.
\<close>

definition deploymentSource ::
  "'st env \<Rightarrow> string \<Rightarrow> SceneJson \<Rightarrow> string list \<Rightarrow> error + SceneDeploymentSourceMetadata" where
  "deploymentSource env projectId sceneJson parcels =
     (let rotation = (case source sceneJson of
                        None \<Rightarrow> None
                      | Some s \<Rightarrow> src_rotation s);
          layout = (case source sceneJson of
                      None \<Rightarrow> None
                    | Some s \<Rightarrow> src_layout s);
          point = (case source sceneJson of
                     None \<Rightarrow> None
                   | Some s \<Rightarrow> src_point s)
      in case (case layout of
                 Some l \<Rightarrow> Inr l
               | None \<Rightarrow> getLayoutFromParcels (translators env) parcels) of
           Inl e \<Rightarrow> Inl e
         | Inr l \<Rightarrow>
             Inr \<lparr>md_origin = ''builder-in-world'',
                  md_version = 1,
                  md_projectId = projectId,
                  md_rotation = (case rotation of Some r \<Rightarrow> r | None \<Rightarrow> ''east''),
                  md_layout = l,
                  md_point = (case point of Some p \<Rightarrow> p | None \<Rightarrow> scene_base (scene sceneJson))\<rparr>)"

text \<open>
  The body of the \<^verbatim>\<open>try\<close> block of \<^verbatim>\<open>publishSceneState\<close>, statement by statement. The
  scene metadata object belongs to the parcel identity: the new \<^verbatim>\<open>display\<close> is written
  into the shared object.
\<close>

definition publishAttempt ::
  "'st env \<Rightarrow> string \<Rightarrow> string \<Rightarrow> string \<Rightarrow> SerializedSceneState \<Rightarrow> StorableSceneState
     \<Rightarrow> (DeploymentResult, 'st world) prog" where
  "publishAttempt env sceneName sceneDescription sceneScreenshot sceneState storableFormat =
     await (lift (base64ToBlob (translators env) sceneScreenshot ''image/png'')) (\<lambda>thumbnailBlob.
     await (getAllAssets env sceneState) (\<lambda>assets.
     await (getAllBuilderAssets env sceneState) (\<lambda>assetsArray.
     await (downloadAssetFiles env assets) (\<lambda>models.
     await (lift (createGameFile (translators env) sceneState assets)) (\<lambda>gameFile.
     await (modify (\<lambda>w. w\<lparr>sceneJsonData := (sceneJsonData w)
              \<lparr>display := Some \<lparr>display_title = Some sceneName,
                                 display_description = Some sceneDescription,
                                 navmapThumbnail = Some (SCENE_THUMBNAIL (config env))\<rparr>\<rparr>\<rparr>)) (\<lambda>_.
     await (reads sceneJsonData) (\<lambda>sceneJson.
     await (lift (blobToBuffer (platform env) thumbnailBlob)) (\<lambda>thumbnail.
     let entityFiles = new_Map (
           [(DEFINITION_FILE (config env), stringify_storable (platform env) storableFormat),
            (BUNDLED_GAME_FILE (config env), gameFile),
            (SCENE_FILE (config env), stringify_scene_json (platform env) sceneJson),
            (SCENE_THUMBNAIL (config env), thumbnail),
            (ASSETS (config env), stringify_assets (platform env) assetsArray)] @ models) in
     await getParcels (\<lambda>parcels.
     await (reads builderManifest) (\<lambda>thisManifest.
     case thisManifest of
       None \<Rightarrow> throw undefined_project
     | Some manifest \<Rightarrow>
     await (lift (deploymentSource env (project_id (project manifest)) sceneJson parcels)) (\<lambda>src.
     let args = \<lparr>be_pointers = parcels, be_files = entityFiles,
                  be_scene_json = sceneJson, be_source = src\<rparr> in
     await (call (BuildEntity args) (buildEntity (contentClient env) args)) (\<lambda>(files, entityId).
     await (reads currentIdentity) (\<lambda>identity.
     case identity of
       None \<Rightarrow> throw IdentityNotFound
     | Some i \<Rightarrow>
     await (lift (signPayload (platform env) i entityId)) (\<lambda>authChain.
     let deployData = \<lparr>dd_files = files, dd_entityId = entityId, dd_authChain = authChain\<rparr> in
     await (call (DeployEntity deployData) (deployEntity (contentClient env) deployData)) (\<lambda>_.
     await (reads builderManifest) (\<lambda>thisManifest'.
     case thisManifest' of
       None \<Rightarrow> throw undefined_project
     | Some manifest' \<Rightarrow>
     await (modify (\<lambda>w. w\<lparr>builderManifest :=
              Some (manifest'\<lparr>project := (project manifest')\<lparr>creation_coords := None\<rparr>\<rparr>)\<rparr>)) (\<lambda>_.
     await (updateProjectDetails env sceneState sceneName sceneDescription thumbnailBlob) (\<lambda>_.
     ret Ok))))))))))))))))))"

definition publishSceneState ::
  "'st env \<Rightarrow> string \<Rightarrow> string \<Rightarrow> string \<Rightarrow> string \<Rightarrow> SerializedSceneState
     \<Rightarrow> (DeploymentResult, 'st world) prog" where
  "publishSceneState env sceneId sceneName sceneDescription sceneScreenshot sceneState =
     await (lift (fromSerializedStateToStorableFormat (translators env) sceneState)) (\<lambda>storableFormat.
     await (if DEBUG (config env) then
              await (savePersistent env (''scene-state-'' @ sceneId) storableFormat) (\<lambda>_.
              ret Ok)
            else
              try_catch
                (publishAttempt env sceneName sceneDescription sceneScreenshot sceneState
                   storableFormat)
                (\<lambda>error.
                 await (emit (LogError ''Deployment failed'' (render error))) (\<lambda>_.
                 ret (Failed (render error))))) (\<lambda>result.
     await (emit (SendPublishSceneResult result)) (\<lambda>_.
     ret result)))"

section \<open>The controller: reading the stored state\<close>

definition getStoredState ::
  "'st env \<Rightarrow> string \<Rightarrow> (SerializedSceneState option, 'st world) prog" where
  "getStoredState env sceneId =
     (if DEBUG (config env) then
        await (loadPersistent env (''scene-state-'' @ sceneId)) (\<lambda>sceneState.
        case sceneState of
          Some s \<Rightarrow>
            await (lift (fromStorableFormatToSerializedState (translators env) s)) (\<lambda>serialized.
            ret (Some serialized))
        | None \<Rightarrow>
            await (emit (LogWarn (''Couldn't find a local scene state for scene '' @ sceneId))) (\<lambda>_.
            ret None))
      else
        await (reads parcel_cid) (\<lambda>cid.
        try_catch
          (await (call (FetchEntityById cid) (fetchEntityById (contentClient env) cid)) (\<lambda>content.
           let definitionHash =
                 (case content of
                    None \<Rightarrow> None
                  | Some c \<Rightarrow> map_option mhash
                                (find (\<lambda>m. mfile m = DEFINITION_FILE (config env)) c)) in
           if truthy definitionHash then
             (case definitionHash of
                None \<Rightarrow> ret None
              | Some h \<Rightarrow>
                  await (call (DownloadContent h) (downloadContent (contentClient env) h)) (\<lambda>definitionBuffer.
                  await (lift (parse_storable (platform env) definitionBuffer)) (\<lambda>definitionFile.
                  await (lift (fromStorableFormatToSerializedState (translators env) definitionFile)) (\<lambda>serialized.
                  ret (Some serialized)))))
           else
             await (emit (LogWarn (''Couldn't find a definition file on the content server for the current scene ('' @ cid @ '')''))) (\<lambda>_.
             ret None)))
          (\<lambda>e.
           await (emit (LogError (''Failed to fetch the current scene ('' @ cid @ '') from the content server'') (render e))) (\<lambda>_.
           ret None))))"

section \<open>The controller: creating a project from a deployed state\<close>




section \<open>The stateful scene system\<close>

text \<open>
  The worker keeps its scene definition and talks to the parcel identity, to the builder
  actor (which fetches the stored scene and sends its assets) and to the renderer actor.
  The calls it makes are recorded in order, and so is every change of the renderer that is
  applied to the scene definition.
\<close>

type_synonym renderer_change = string

datatype sys_event =
    GetParcel
  | GetIsEmpty
  | GetInititalSceneState
  | SendAssetsFromScene SceneStateDefinition
  | SendStateTo SceneStateDefinition
  | Log string
  | ForwardChangesTo
  | SendInitFinished
  | OnStateEvent string
  | Applied renderer_change

text \<open>
  The collaborators: what the awaited calls resolve or reject with, the changes that the
  renderer sends while the \<open>n\<close>-th awaited call is pending, and what applying a change does
  to a scene definition.
\<close>

record sys_env =
  getParcel :: "error + string"
  getIsEmpty :: "error + bool"
  getInititalSceneState :: "error + SceneStateDefinition"
  sendAssetsFromScene :: "SceneStateDefinition \<Rightarrow> error + unit"
  arrivals :: "nat \<Rightarrow> renderer_change list"
  applyChange :: "renderer_change \<Rightarrow> SceneStateDefinition \<Rightarrow> SceneStateDefinition"

text \<open>
  \<open>forwarding\<close> tells whether the renderer actor forwards the renderer's changes to the
  scene definition.
\<close>

record StatefulWebWorkerScene =
  sceneDefinition :: "SceneStateDefinition option"
  forwarding :: bool
  calls :: "sys_event list"

definition sys_call :: "sys_event \<Rightarrow> error + 'a \<Rightarrow> ('a, StatefulWebWorkerScene) prog" where
  "sys_call ev r = (\<lambda>s. (r, s\<lparr>calls := calls s @ [ev]\<rparr>))"

definition sys_emit :: "sys_event \<Rightarrow> (unit, StatefulWebWorkerScene) prog" where
  "sys_emit ev = sys_call ev (Inr ())"

text \<open>
  Modelled from the spec: the classes \<^verbatim>\<open>RendererStatefulActor\<close> and \<^verbatim>\<open>EventSubscriber\<close> are
  not among the sources. The spec has the renderer actor subscribe to the renderer's
  change events and apply each of them to the scene graph; the source calls
  \<^verbatim>\<open>forwardChangesTo\<close> to listen to the renderer and update the local scene state. A change
  that arrives while nothing is forwarded is applied nowhere.
\<close>

definition rendererChange ::
  "sys_env \<Rightarrow> renderer_change \<Rightarrow> StatefulWebWorkerScene \<Rightarrow> StatefulWebWorkerScene" where
  "rendererChange env c s =
     (if forwarding s then
        s\<lparr>sceneDefinition := map_option (applyChange env c) (sceneDefinition s),
          calls := calls s @ [Applied c]\<rparr>
      else s)"

definition forwardChangesTo :: "(unit, StatefulWebWorkerScene) prog" where
  "forwardChangesTo =
     await (sys_emit ForwardChangesTo) (\<lambda>_.
     modify (\<lambda>s. s\<lparr>forwarding := True\<rparr>))"

text \<open>
  A handler of the worker runs only when no other code of the worker runs. During
  \<^verbatim>\<open>systemDidEnable\<close> that is while an awaited call is pending: the call is made, the
  changes that arrive meanwhile are handled, then the call resolves or rejects.
\<close>

definition sys_await ::
  "sys_env \<Rightarrow> nat \<Rightarrow> sys_event \<Rightarrow> error + 'a \<Rightarrow> ('a, StatefulWebWorkerScene) prog" where
  "sys_await env n ev r =
     (\<lambda>s. (r, fold (rendererChange env) (arrivals env n) (s\<lparr>calls := calls s @ [ev]\<rparr>)))"

text \<open>
  Modelled from the spec: the class \<^verbatim>\<open>SceneStateDefinition\<close> is not among the sources. The
  spec has the engine start an empty parcel with a scene graph containing zero entities.
\<close>

definition new_SceneStateDefinition :: SceneStateDefinition where
  "new_SceneStateDefinition = SceneStateDefinition []"

text \<open>\<^verbatim>\<open>listenToEvents\<close> subscribes three handlers to \<^verbatim>\<open>stateEvent\<close>.\<close>

definition listenToEvents :: "string \<Rightarrow> (unit, StatefulWebWorkerScene) prog" where
  "listenToEvents sceneId =
     await (sys_emit (OnStateEvent ''PublishSceneState'')) (\<lambda>_.
     await (sys_emit (OnStateEvent ''SaveSceneState'')) (\<lambda>_.
     sys_emit (OnStateEvent ''SaveProjectInfo'')))"

text \<open>
  \<^verbatim>\<open>systemDidEnable\<close>. The renderer actor is constructed once \<^verbatim>\<open>getParcel\<close> has resolved,
  and a new actor forwards nothing; while \<^verbatim>\<open>getParcel\<close> is pending there is no actor yet.
\<close>

definition systemDidEnable :: "sys_env \<Rightarrow> (unit, StatefulWebWorkerScene) prog" where
  "systemDidEnable env =
     await (sys_call GetParcel (getParcel env)) (\<lambda>sceneId.
     await (modify (\<lambda>s. s\<lparr>forwarding := False\<rparr>)) (\<lambda>_.
     await (sys_await env 1 GetIsEmpty (getIsEmpty env)) (\<lambda>isEmpty.
     await (if \<not> isEmpty then
              await (sys_await env 2 GetInititalSceneState (getInititalSceneState env)) (\<lambda>fetched.
              await (modify (\<lambda>s. s\<lparr>sceneDefinition := Some fetched\<rparr>)) (\<lambda>_.
              await (sys_await env 3 (SendAssetsFromScene fetched)
                       (sendAssetsFromScene env fetched)) (\<lambda>_.
              await (sys_emit (SendStateTo fetched)) (\<lambda>_.
              sys_emit (Log ''Sent initial load'')))))
            else
              modify (\<lambda>s. s\<lparr>sceneDefinition := Some new_SceneStateDefinition\<rparr>)) (\<lambda>_.
     await forwardChangesTo (\<lambda>_.
     await (sys_emit SendInitFinished) (\<lambda>_.
     listenToEvents sceneId))))))"

fun isApplied :: "sys_event \<Rightarrow> bool" where
  "isApplied (Applied _) = True"
| "isApplied _ = False"

section \<open>The storable format\<close>

text \<open>
  Modelled from the spec: the module \<^verbatim>\<open>StorableSceneStateTranslation\<close> is not among the
  sources. The spec has the storable format differ from the wire format only in being
  suitable for stable hashing, by a deterministic key ordering: the components of each
  entity are stored in the order of their type, the key of a component in its entity.
\<close>

definition spec_fromSerializedStateToStorableFormat :: "SerializedSceneState \<Rightarrow> StorableSceneState" where
  "spec_fromSerializedStateToStorableFormat state =
     Storable (map (\<lambda>e. e\<lparr>components := sort_key ctype (components e)\<rparr>) (entities state))"

text \<open>
  Modelled from the spec: the way back reads the stored entities as a wire format state.
\<close>

fun spec_fromStorableFormatToSerializedState :: "StorableSceneState \<Rightarrow> SerializedSceneState" where
  "spec_fromStorableFormatToSerializedState (Storable es) = \<lparr>entities = es\<rparr>"

text \<open>
  Two scene states are structurally equivalent modulo component ordering when they have
  the same entities in the same order, each with the same components up to their order.
\<close>

definition equivalent :: "SerializedSceneState \<Rightarrow> SerializedSceneState \<Rightarrow> bool" where
  "equivalent s t =
     list_all2 (\<lambda>e f. eid e = eid f \<and> mset (components e) = mset (components f))
       (entities s) (entities t)"

section \<open>Observing a run\<close>

text \<open>The calls made between a state and a later one.\<close>

definition callsDuring :: "'st world \<Rightarrow> 'st world \<Rightarrow> event list" where
  "callsDuring w w' = drop (length (trace w)) (trace w')"

fun isDeployEntity :: "event \<Rightarrow> bool" where
  "isDeployEntity (DeployEntity _) = True"
| "isDeployEntity _ = False"

fun isBuildEntity :: "event \<Rightarrow> bool" where
  "isBuildEntity (BuildEntity _) = True"
| "isBuildEntity _ = False"

fun isFetch :: "event \<Rightarrow> bool" where
  "isFetch (Fetch _) = True"
| "isFetch _ = False"

text \<open>
  A result reports the missing identity when it is \<^verbatim>\<open>{ok: false, error}\<close> with an error
  that contains \<^verbatim>\<open>Identity not found\<close>.
\<close>

fun reportsIdentityNotFound :: "error + DeploymentResult \<Rightarrow> bool" where
  "reportsIdentityNotFound (Inr (Failed msg)) = str_includes msg ''Identity not found''"
| "reportsIdentityNotFound _ = False"

text \<open>The logical paths of a deployment: the five fixed ones, and those of the models.\<close>

definition fixedPaths :: "Config \<Rightarrow> string set" where
  "fixedPaths cfg =
     {DEFINITION_FILE cfg, BUNDLED_GAME_FILE cfg, SCENE_FILE cfg, SCENE_THUMBNAIL cfg, ASSETS cfg}"

definition modelPaths :: "Config \<Rightarrow> (AssetId \<times> Asset) list \<Rightarrow> string set" where
  "modelPaths cfg assets =
     (\<Union>asset \<in> snd ` set assets. (\<lambda>mp. MODELS_FOLDER cfg @ ''/'' @ mfile mp) ` set (mappings asset))"

section \<open>A concrete scene and concrete collaborators\<close>

text \<open>
  A scene of two entities: one with a transform, one with a GLTF shape that refers to the
  asset \<^verbatim>\<open>abc\<close>. The collaborators answer every call; the variants below make one of
  them fail.
\<close>

definition demo_state :: SerializedSceneState where
  "demo_state =
     \<lparr>entities =
        [\<lparr>eid = ''E1'', components = [\<lparr>ctype = 1, cvalue = \<lparr>assetId = None, payload = ''0,0,0''\<rparr>\<rparr>]\<rparr>,
         \<lparr>eid = ''E2'', components = [\<lparr>ctype = 54, cvalue = \<lparr>assetId = Some ''abc'', payload = []\<rparr>\<rparr>,
                                      \<lparr>ctype = 1, cvalue = \<lparr>assetId = None, payload = ''1,0,1''\<rparr>\<rparr>]\<rparr>]\<rparr>"

definition demo_config :: Config where
  "demo_config =
     \<lparr>DEBUG = False, GLTF_SHAPE = 54,
      DEFINITION_FILE = ''scene-state-definition.json'',
      BUNDLED_GAME_FILE = ''bin/game.js'',
      SCENE_FILE = ''scene.json'',
      SCENE_THUMBNAIL = ''scene-thumbnail.png'',
      ASSETS = ''assets.json'',
      MODELS_FOLDER = ''models''\<rparr>"

definition demo_manifest :: BuilderManifest where
  "demo_manifest =
     \<lparr>project = \<lparr>project_id = ''p1'', project_title = ''Title'', project_description = ''Text'',
                  creation_coords = Some ''0,0''\<rparr>,
      bscene = \<lparr>scene_components = [], scene_rest = []\<rparr>\<rparr>"

definition demo_api :: BuilderServerAPIManager where
  "demo_api =
     \<lparr>getBuilderManifestFromProjectId = (\<lambda>_ _. Inr (Some demo_manifest)),
      getBuilderManifestFromLandCoordinates = (\<lambda>_ _. Inr (Some demo_manifest)),
      createProjectWithCoordsApi = (\<lambda>_ _. Inr (Some demo_manifest)),
      updateProjectManifest = (\<lambda>_ _. Inr ()),
      updateProjectThumbnail = (\<lambda>_ _ _. Inr ()),
      getBuilderAssets = (\<lambda>ids. Inr (map (\<lambda>a. \<lparr>builder_asset_id = a, builder_asset_rest = []\<rparr>) ids)),
      getConvertedAssets = (\<lambda>ids. Inr (map (\<lambda>a. (a, \<lparr>baseUrl = ''https://assets'',
                                mappings = [\<lparr>mfile = a @ ''.glb'', mhash = ''Qm'' @ a\<rparr>],
                                asset_rest = []\<rparr>)) ids)),
      addBuilderAssets = (\<lambda>_. Inr ()),
      builderManifestFromSerializedState = (\<lambda>_. Inr (Some demo_manifest))\<rparr>"

definition demo_client :: ContentClient where
  "demo_client =
     \<lparr>buildEntity = (\<lambda>args. Inr (be_files args, ''entity-1'')),
      deployEntity = (\<lambda>_. Inr ()),
      fetchEntityById = (\<lambda>_. Inr None),
      downloadContent = (\<lambda>h. Inr h)\<rparr>"

definition demo_translators :: Translators where
  "demo_translators =
     \<lparr>fromSerializedStateToStorableFormat = (\<lambda>s. Inr (spec_fromSerializedStateToStorableFormat s)),
      fromStorableFormatToSerializedState = (\<lambda>s. Inr (spec_fromStorableFormatToSerializedState s)),
      fromBuildertoStateDefinitionFormat = (\<lambda>_ _. Inr (SceneStateDefinition [])),
      toBuilderFromStateDefinitionFormat =
        (\<lambda>_ manifest _. case manifest of None \<Rightarrow> Inl undefined_project | Some m \<Rightarrow> Inr m),
      transformBuilderComponent = (\<lambda>_ c. Inr c),
      serializeSceneState = (\<lambda>d. case d of SceneStateDefinition es \<Rightarrow> Inr \<lparr>entities = es\<rparr>),
      deserializeSceneState = (\<lambda>s. Inr (SceneStateDefinition (entities s))),
      createGameFile = (\<lambda>_ _. Inr ''game''),
      base64ToBlob = (\<lambda>data _. Inr data),
      getLayoutFromParcels = (\<lambda>ps. Inr (1, length ps))\<rparr>"

definition demo_platform :: "(string \<Rightarrow> StorableSceneState option) Platform" where
  "demo_platform =
     \<lparr>fetch = (\<lambda>url. Inr \<lparr>response_ok = True, response_status = 200, response_body = url\<rparr>),
      blob = (\<lambda>response. Inr (response_body response)),
      blobToBufferLib = (\<lambda>b. Inr b),
      first_settled = 0,
      stringify_storable = (\<lambda>_. ''{entities}''),
      stringify_scene_json = (\<lambda>_. ''{scene}''),
      stringify_assets = (\<lambda>_. ''[assets]''),
      parse_storable = (\<lambda>_. Inr (Storable [])),
      parse_assets = (\<lambda>_. Inr []),
      toString_base64 = (\<lambda>b. b),
      signPayload = (\<lambda>i entityId. Inr (rawAddress i @ '':'' @ entityId)),
      uuid = (\<lambda>_. ''uuid''),
      saveToPersistentStorage = (\<lambda>key v st. Inr (st(key \<mapsto> v))),
      getFromPersistentStorage = (\<lambda>key st. Inr (st key))\<rparr>"

definition demo_env :: "(string \<Rightarrow> StorableSceneState option) env" where
  "demo_env =
     \<lparr>config = demo_config, builderApiManager = demo_api, contentClient = demo_client,
      translators = demo_translators, platform = demo_platform\<rparr>"

definition demo_world :: "(string \<Rightarrow> StorableSceneState option) world" where
  "demo_world =
     \<lparr>currentIdentity = Some \<lparr>rawAddress = ''0xabc''\<rparr>,
      builderManifest = Some demo_manifest,
      transformTranslator = Some None,
      sceneJsonData = \<lparr>display = None, source = None,
                       scene = \<lparr>scene_base = ''0,0'', scene_parcels = [''0,0'']\<rparr>,
                       scene_json_rest = []\<rparr>,
      land_sceneId = ''scene-1'',
      parcel_cid = ''cid-1'',
      mappings_contents = [],
      storage = Map.empty,
      trace = []\<rparr>"

text \<open>The variants: the debug build, a signed-out store, and collaborators that fail.\<close>

definition debug_env :: "(string \<Rightarrow> StorableSceneState option) env" where
  "debug_env = demo_env\<lparr>config := demo_config\<lparr>DEBUG := True\<rparr>\<rparr>"

definition signed_out_world :: "(string \<Rightarrow> StorableSceneState option) world" where
  "signed_out_world = demo_world\<lparr>currentIdentity := None\<rparr>"

definition no_metadata_env :: "(string \<Rightarrow> StorableSceneState option) env" where
  "no_metadata_env =
     demo_env\<lparr>builderApiManager :=
       demo_api\<lparr>getConvertedAssets := (\<lambda>_. Inl (Rejected ''TypeError: Failed to fetch''))\<rparr>\<rparr>"

definition no_download_env :: "(string \<Rightarrow> StorableSceneState option) env" where
  "no_download_env =
     demo_env\<lparr>platform :=
       demo_platform\<lparr>fetch := (\<lambda>_. Inl (Rejected ''TypeError: Failed to fetch''))\<rparr>\<rparr>"

definition not_found_env :: "(string \<Rightarrow> StorableSceneState option) env" where
  "not_found_env =
     demo_env\<lparr>platform :=
       demo_platform\<lparr>fetch := (\<lambda>_. Inr \<lparr>response_ok = False, response_status = 404,
                                              response_body = ''Not Found''\<rparr>)\<rparr>\<rparr>"

definition no_conversion_env :: "(string \<Rightarrow> StorableSceneState option) env" where
  "no_conversion_env =
     demo_env\<lparr>translators :=
       demo_translators\<lparr>fromSerializedStateToStorableFormat :=
         (\<lambda>_. Inl (Rejected ''Error: Unknown component type''))\<rparr>\<rparr>"

definition no_assets_env :: "(string \<Rightarrow> StorableSceneState option) env" where
  "no_assets_env =
     demo_env\<lparr>builderApiManager :=
       demo_api\<lparr>getBuilderAssets := (\<lambda>_. Inl (Rejected ''TypeError: Failed to fetch''))\<rparr>\<rparr>"

definition no_backend_env :: "(string \<Rightarrow> StorableSceneState option) env" where
  "no_backend_env =
     demo_env\<lparr>builderApiManager :=
       demo_api\<lparr>getBuilderManifestFromProjectId := (\<lambda>_ _. Inl (Rejected ''Error: 503'')),
                getBuilderManifestFromLandCoordinates := (\<lambda>_ _. Inl (Rejected ''Error: 503'')),
                createProjectWithCoordsApi := (\<lambda>_ _. Inl (Rejected ''Error: 503''))\<rparr>\<rparr>"

definition no_storage_env :: "(string \<Rightarrow> StorableSceneState option) env" where
  "no_storage_env =
     debug_env\<lparr>platform :=
       demo_platform\<lparr>saveToPersistentStorage := (\<lambda>_ _ _. Inl (Rejected ''QuotaExceededError'')),
                     getFromPersistentStorage := (\<lambda>_ _. Inl (Rejected ''SecurityError''))\<rparr>\<rparr>"

definition no_update_env :: "(string \<Rightarrow> StorableSceneState option) env" where
  "no_update_env =
     demo_env\<lparr>builderApiManager :=
       demo_api\<lparr>updateProjectManifest := (\<lambda>_ _. Inl (Rejected ''Error: 500''))\<rparr>\<rparr>"

text \<open>
  The collaborators of the scene system, for an empty parcel and for a stored scene. The
  renderer sends a change while each awaited call is pending; applying a change adds an
  entity named after it.
\<close>

definition demo_applyChange :: "renderer_change \<Rightarrow> SceneStateDefinition \<Rightarrow> SceneStateDefinition" where
  "demo_applyChange c d =
     (case d of SceneStateDefinition es \<Rightarrow> SceneStateDefinition (es @ [\<lparr>eid = c, components = []\<rparr>]))"

definition empty_parcel :: sys_env where
  "empty_parcel =
     \<lparr>getParcel = Inr ''scene-1'', getIsEmpty = Inr True,
      getInititalSceneState = Inl (Rejected ''not called''),
      sendAssetsFromScene = (\<lambda>_. Inl (Rejected ''not called'')),
      arrivals = (\<lambda>_. [''early'']),
      applyChange = demo_applyChange\<rparr>"

definition stored_parcel :: sys_env where
  "stored_parcel =
     \<lparr>getParcel = Inr ''scene-1'', getIsEmpty = Inr False,
      getInititalSceneState = Inr (SceneStateDefinition (entities demo_state)),
      sendAssetsFromScene = (\<lambda>_. Inr ()),
      arrivals = (\<lambda>_. [''early'']),
      applyChange = demo_applyChange\<rparr>"

definition fresh_scene :: StatefulWebWorkerScene where
  "fresh_scene = \<lparr>sceneDefinition = None, forwarding = False, calls = []\<rparr>"

text \<open>What the concrete scene builds and deploys.\<close>

definition demo_scene_json :: SceneJson where
  "demo_scene_json =
     \<lparr>display = Some \<lparr>display_title = Some ''T'', display_description = Some ''D'',
                        navmapThumbnail = Some ''scene-thumbnail.png''\<rparr>,
      source = None,
      scene = \<lparr>scene_base = ''0,0'', scene_parcels = [''0,0'']\<rparr>,
      scene_json_rest = []\<rparr>"

definition demo_files :: "(string \<times> Buffer) list" where
  "demo_files =
     [(''scene-state-definition.json'', ''{entities}''),
      (''bin/game.js'', ''game''),
      (''scene.json'', ''{scene}''),
      (''scene-thumbnail.png'', ''shot''),
      (''assets.json'', ''[assets]''),
      (''models/abc.glb'', ''https://assets/Qmabc'')]"

definition demo_build :: BuildEntityArgs where
  "demo_build =
     \<lparr>be_pointers = [''0,0''],
      be_files = demo_files,
      be_scene_json = demo_scene_json,
      be_source = \<lparr>md_origin = ''builder-in-world'', md_version = 1, md_projectId = ''p1'',
                    md_rotation = ''east'', md_layout = (1, 1), md_point = ''0,0''\<rparr>\<rparr>"

definition demo_deploy :: DeployData where
  "demo_deploy =
     \<lparr>dd_files = demo_files, dd_entityId = ''entity-1'', dd_authChain = ''0xabc:entity-1''\<rparr>"

text \<open>What is built and deployed when the server answers the download with an error.\<close>

definition not_found_files :: "(string \<times> Buffer) list" where
  "not_found_files =
     [(''scene-state-definition.json'', ''{entities}''),
      (''bin/game.js'', ''game''),
      (''scene.json'', ''{scene}''),
      (''scene-thumbnail.png'', ''shot''),
      (''assets.json'', ''[assets]''),
      (''models/abc.glb'', ''Not Found'')]"

definition not_found_build :: BuildEntityArgs where
  "not_found_build = demo_build\<lparr>be_files := not_found_files\<rparr>"

definition not_found_deploy :: DeployData where
  "not_found_deploy = demo_deploy\<lparr>dd_files := not_found_files\<rparr>"

section \<open>Running programs\<close>

lemma await_ret: "await (ret x) f w = f x w"
  by (simp add: await_def ret_def)

lemma await_throw: "await (throw e) f w = (Inl e, w)"
  by (simp add: await_def throw_def)

lemma await_lift: "await (lift r) f w = (case r of Inl e \<Rightarrow> (Inl e, w) | Inr x \<Rightarrow> f x w)"
  by (simp add: await_def lift_def split: sum.splits)

lemma await_reads: "await (reads g) f w = f (g w) w"
  by (simp add: await_def reads_def)

lemma await_modify: "await (modify g) f w = f () (g w)"
  by (simp add: await_def modify_def)

lemma await_call:
  "await (call ev r) f w =
     (case r of
        Inl e \<Rightarrow> (Inl e, w\<lparr>trace := trace w @ [ev]\<rparr>)
      | Inr x \<Rightarrow> f x (w\<lparr>trace := trace w @ [ev]\<rparr>))"
  by (simp add: await_def call_def split: sum.splits)

lemma await_emit: "await (emit ev) f w = f () (w\<lparr>trace := trace w @ [ev]\<rparr>)"
  by (simp add: emit_def await_call)

lemma await_await: "await (await m f) g = await m (\<lambda>x. await (f x) g)"
  by (auto simp: await_def fun_eq_iff split: prod.splits sum.splits)

lemma ret_apply: "ret x w = (Inr x, w)"
  by (simp add: ret_def)

lemma throw_apply: "throw e w = (Inl e, w)"
  by (simp add: throw_def)

lemma lift_apply: "lift r w = (r, w)"
  by (simp add: lift_def)

lemma reads_apply: "reads g w = (Inr (g w), w)"
  by (simp add: reads_def)

lemma modify_apply: "modify g w = (Inr (), g w)"
  by (simp add: modify_def)

lemma call_apply: "call ev r w = (r, w\<lparr>trace := trace w @ [ev]\<rparr>)"
  by (simp add: call_def)

lemma emit_apply: "emit ev w = (Inr (), w\<lparr>trace := trace w @ [ev]\<rparr>)"
  by (simp add: emit_def call_def)


lemmas prog_simps =
  await_ret await_throw await_lift await_reads await_modify await_call await_emit await_await
  ret_apply throw_apply lift_apply reads_apply modify_apply call_apply emit_apply

section \<open>Asset resolution\<close>

lemma set_set_add: "set (set_add x xs) = insert x (set xs)"
  by (auto simp: set_add_def)

lemma distinct_set_add: "distinct xs \<Longrightarrow> distinct (set_add x xs)"
  by (simp add: set_add_def)

lemma distinct_addEntityAssetIds:
  assumes "distinct ids"
  shows "distinct (addEntityAssetIds cfg e ids)"
proof -
  have "distinct acc \<Longrightarrow>
        distinct (fold (\<lambda>c ids. case assetId (cvalue c) of Some a \<Rightarrow> set_add a ids | None \<Rightarrow> ids) cs acc)"
    for cs and acc :: "AssetId list"
    by (induction cs arbitrary: acc) (auto simp: distinct_set_add split: option.splits)
  with assms show ?thesis
    by (simp add: addEntityAssetIds_def)
qed

lemma set_addEntityAssetIds:
  "set (addEntityAssetIds cfg e ids) =
     set ids \<union> {a. \<exists>c \<in> set (components e).
                     ctype c = GLTF_SHAPE cfg \<and> assetId (cvalue c) = Some a \<and> a \<noteq> []}"
proof -
  have added: "set (fold (\<lambda>c ids. case assetId (cvalue c) of Some a \<Rightarrow> set_add a ids | None \<Rightarrow> ids) cs acc)
        = set acc \<union> {a. \<exists>c \<in> set cs. assetId (cvalue c) = Some a}"
    for cs and acc :: "AssetId list"
    by (induction cs arbitrary: acc) (auto simp: set_set_add split: option.splits)
  show ?thesis
    unfolding addEntityAssetIds_def added
    by (auto simp: truthy_def)
qed

lemma distinct_fold_addEntityAssetIds:
  "distinct ids \<Longrightarrow> distinct (fold (addEntityAssetIds cfg) es ids)"
  by (induction es arbitrary: ids) (simp_all add: distinct_addEntityAssetIds)

lemma set_fold_addEntityAssetIds:
  "set (fold (addEntityAssetIds cfg) es ids) =
     set ids \<union> {a. \<exists>e \<in> set es. \<exists>c \<in> set (components e).
                     ctype c = GLTF_SHAPE cfg \<and> assetId (cvalue c) = Some a \<and> a \<noteq> []}"
  by (induction es arbitrary: ids) (auto simp: set_addEntityAssetIds)

lemma distinct_collectAssetIds: "distinct (collectAssetIds cfg state)"
  by (simp add: collectAssetIds_def distinct_fold_addEntityAssetIds)

lemma set_collectAssetIds: "set (collectAssetIds cfg state) = gltfAssetIds cfg state"
  by (simp add: collectAssetIds_def gltfAssetIds_def set_fold_addEntityAssetIds)

lemma collectAssetIds_demo: "collectAssetIds demo_config demo_state = [''abc'']"
  by (simp add: collectAssetIds_def addEntityAssetIds_def demo_state_def demo_config_def
      truthy_def set_add_def)

text \<open>
  C7: the asset ids sent to the backend are those of the GLTF shape components that have
  a (non-empty) asset id, each once; \<^verbatim>\<open>getAllBuilderAssets\<close> and \<^verbatim>\<open>getAllAssets\<close> make one
  request with that list, and \<^verbatim>\<open>sendAssetsToRenderer\<close> forwards the descriptors the backend
  resolves with to the renderer and returns \<^verbatim>\<open>OK\<close>.
\<close>

theorem asset_resolution:
  "distinct (collectAssetIds (config env) state) \<and>
   set (collectAssetIds (config env) state) = gltfAssetIds (config env) state \<and>
   getAllBuilderAssets env state w =
     (getBuilderAssets (builderApiManager env) (collectAssetIds (config env) state),
      w\<lparr>trace := trace w @ [GetBuilderAssets (collectAssetIds (config env) state)]\<rparr>) \<and>
   getAllAssets env state w =
     (getConvertedAssets (builderApiManager env) (collectAssetIds (config env) state),
      w\<lparr>trace := trace w @ [GetConvertedAssets (collectAssetIds (config env) state)]\<rparr>) \<and>
   (\<forall>assets.
      getBuilderAssets (builderApiManager env) (collectAssetIds (config env) state) = Inr assets \<longrightarrow>
      sendAssetsToRenderer env state w =
        (Inr ''OK'',
         w\<lparr>trace := trace w @ [GetBuilderAssets (collectAssetIds (config env) state),
                                SendSceneAssets assets]\<rparr>))"
proof -
  have "getAllBuilderAssets env state w =
     (getBuilderAssets (builderApiManager env) (collectAssetIds (config env) state),
      w\<lparr>trace := trace w @ [GetBuilderAssets (collectAssetIds (config env) state)]\<rparr>)"
    by (simp add: getAllBuilderAssets_def Let_def call_apply)
  moreover have "getAllAssets env state w =
     (getConvertedAssets (builderApiManager env) (collectAssetIds (config env) state),
      w\<lparr>trace := trace w @ [GetConvertedAssets (collectAssetIds (config env) state)]\<rparr>)"
    by (simp add: getAllAssets_def Let_def call_apply)
  moreover have "sendAssetsToRenderer env state w =
        (Inr ''OK'',
         w\<lparr>trace := trace w @ [GetBuilderAssets (collectAssetIds (config env) state),
                                SendSceneAssets assets]\<rparr>)"
    if "getBuilderAssets (builderApiManager env) (collectAssetIds (config env) state) = Inr assets"
    for assets
    using that by (simp add: sendAssetsToRenderer_def getAllBuilderAssets_def Let_def prog_simps)
  ultimately show ?thesis
    using distinct_collectAssetIds set_collectAssetIds by blast
qed

theorem asset_resolution_witness:
  "collectAssetIds (config demo_env) demo_state = [''abc''] \<and>
   gltfAssetIds (config demo_env) demo_state = {''abc''} \<and>
   sendAssetsToRenderer demo_env demo_state demo_world =
     (Inr ''OK'',
      demo_world\<lparr>trace := trace demo_world @
         [GetBuilderAssets [''abc''],
          SendSceneAssets [\<lparr>builder_asset_id = ''abc'', builder_asset_rest = []\<rparr>]]\<rparr>)"
proof -
  have ids: "collectAssetIds (config demo_env) demo_state = [''abc'']"
    by (simp add: demo_env_def collectAssetIds_demo)
  have resolved: "getBuilderAssets (builderApiManager demo_env) (collectAssetIds (config demo_env) demo_state)
      = Inr [\<lparr>builder_asset_id = ''abc'', builder_asset_rest = []\<rparr>]"
    by (simp add: ids) (simp add: demo_env_def demo_api_def)
  from asset_resolution [of demo_env demo_state demo_world] resolved ids
  show ?thesis by auto
qed

section \<open>The storable format\<close>

text \<open>
  C9: encoding a serialized scene state to the storable format and decoding it back yields
  a scene state structurally equivalent to the first, modulo component ordering.
\<close>

theorem storable_round_trip:
  "equivalent
     (spec_fromStorableFormatToSerializedState (spec_fromSerializedStateToStorableFormat state))
     state"
  by (simp add: equivalent_def spec_fromSerializedStateToStorableFormat_def list_all2_map1
      list.rel_refl)

section \<open>Publishing: the guarded attempt\<close>

lemma await_try_catch:
  "await (try_catch m h) f w =
     (case m w of (Inl e, w') \<Rightarrow> await (h e) f w' | (Inr x, w') \<Rightarrow> f x w')"
  by (simp add: await_def try_catch_def split: prod.splits sum.splits)

lemma await_savePersistent:
  "await (savePersistent env key v) f w =
     (case saveToPersistentStorage (platform env) key v (storage w) of
        Inl e \<Rightarrow> (Inl e, w\<lparr>trace := trace w @ [SaveToPersistentStorage key v]\<rparr>)
      | Inr st \<Rightarrow> f () (w\<lparr>storage := st, trace := trace w @ [SaveToPersistentStorage key v]\<rparr>))"
  by (simp add: await_def savePersistent_def split: sum.splits)

lemma await_loadPersistent:
  "await (loadPersistent env key) f w =
     (case getFromPersistentStorage (platform env) key (storage w) of
        Inl e \<Rightarrow> (Inl e, w\<lparr>trace := trace w @ [GetFromPersistentStorage key]\<rparr>)
      | Inr v \<Rightarrow> f v (w\<lparr>trace := trace w @ [GetFromPersistentStorage key]\<rparr>))"
  by (simp add: await_def loadPersistent_def split: sum.splits)

lemma filter_fetches:
  "filter isDeployEntity (map (\<lambda>(path, url). Fetch url) xs) = []"
  "filter isBuildEntity (map (\<lambda>(path, url). Fetch url) xs) = []"
  "filter isFetch (map (\<lambda>(path, url). Fetch url) xs) = map (\<lambda>(path, url). Fetch url) xs"
  by (induction xs) auto

lemma not_a_fetch:
  "BuildEntity a \<notin> (\<lambda>(path, url). Fetch url) ` S"
  "DeployEntity d \<notin> (\<lambda>(path, url). Fetch url) ` S"
  by auto

lemmas attempt_defs = publishAttempt_def getAllAssets_def getAllBuilderAssets_def
  downloadAssetFiles_def getParcels_def updateProjectDetails_def getIdentity_def Let_def

lemmas demo_defs = demo_env_def demo_config_def demo_api_def demo_client_def demo_translators_def
  demo_platform_def demo_world_def demo_state_def demo_manifest_def signed_out_world_def
  debug_env_def no_metadata_env_def no_download_env_def no_update_env_def not_found_env_def
  no_conversion_env_def no_assets_env_def no_backend_env_def no_storage_env_def

lemmas run_defs = publishSceneState_def attempt_defs
  collectAssetIds_def addEntityAssetIds_def truthy_def set_add_def allMappings_def download_def
  blobToBuffer_def promise_all_def new_Map_def deploymentSource_def undefined_project_def
  spec_fromSerializedStateToStorableFormat_def

lemmas run_simps = prog_simps await_try_catch await_savePersistent await_loadPersistent

text \<open>
  Outside the debug build, \<^verbatim>\<open>publishSceneState\<close> converts the state, runs the guarded
  attempt, turns an error into a failed result that it logs, and notifies the renderer.
\<close>

lemma publishSceneState_release:
  assumes "\<not> DEBUG (config env)"
  shows "publishSceneState env sceneId sceneName sceneDescription sceneScreenshot sceneState w =
    (case fromSerializedStateToStorableFormat (translators env) sceneState of
       Inl e \<Rightarrow> (Inl e, w)
     | Inr storable \<Rightarrow>
         (case publishAttempt env sceneName sceneDescription sceneScreenshot sceneState storable w of
            (Inl e, w1) \<Rightarrow>
              (Inr (Failed (render e)),
               w1\<lparr>trace := trace w1 @ [LogError ''Deployment failed'' (render e),
                                        SendPublishSceneResult (Failed (render e))]\<rparr>)
          | (Inr result, w1) \<Rightarrow>
              (Inr result, w1\<lparr>trace := trace w1 @ [SendPublishSceneResult result]\<rparr>)))"
  using assms
  by (simp add: publishSceneState_def prog_simps await_try_catch split: sum.splits prod.splits)

lemma attempt_trace_grows:
  assumes "(r, w1) = publishAttempt env sceneName sceneDescription sceneScreenshot sceneState storable w"
  shows "length (trace w) \<le> length (trace w1)"
  using assms
  unfolding attempt_defs
  by (simp add: prog_simps split: sum.splits option.splits prod.splits)

text \<open>What \<^verbatim>\<open>publishSceneState\<close> adds to the calls of its attempt is a log and a notification.\<close>

lemma release_calls:
  assumes "\<not> DEBUG (config env)"
    and "publishSceneState env sceneId sceneName sceneDescription sceneScreenshot sceneState w = (r, w')"
    and "fromSerializedStateToStorableFormat (translators env) sceneState = Inr storable"
    and "(r1, w1) = publishAttempt env sceneName sceneDescription sceneScreenshot sceneState storable w"
  shows "\<exists>extra. callsDuring w w' = callsDuring w w1 @ extra \<and> trace w' = trace w1 @ extra \<and>
    filter isDeployEntity extra = [] \<and> filter isBuildEntity extra = [] \<and> filter isFetch extra = []"
proof -
  have grows: "length (trace w) \<le> length (trace w1)"
    using assms(4) by (rule attempt_trace_grows)
  have "\<exists>extra. trace w' = trace w1 @ extra \<and>
    filter isDeployEntity extra = [] \<and> filter isBuildEntity extra = [] \<and> filter isFetch extra = []"
    using assms(2) assms(4) [symmetric]
    by (cases r1) (auto simp add: publishSceneState_release [OF assms(1)] assms(3))
  then obtain extra where "trace w' = trace w1 @ extra"
    "filter isDeployEntity extra = []" "filter isBuildEntity extra = []" "filter isFetch extra = []"
    by blast
  with grows show ?thesis
    by (simp add: callsDuring_def)
qed

lemma not_filtered:
  "filter isDeployEntity extra = [] \<Longrightarrow> DeployEntity d \<notin> set extra"
  "filter isBuildEntity extra = [] \<Longrightarrow> BuildEntity args \<notin> set extra"
  "filter isFetch extra = [] \<Longrightarrow> Fetch url \<notin> set extra"
  by (auto simp add: filter_empty_conv)

section \<open>Publishing without an identity\<close>

lemma attempt_signed_out:
  assumes "currentIdentity w = None"
    and "publishAttempt env sceneName sceneDescription sceneScreenshot sceneState storable w = (r, w1)"
  shows "(\<exists>e. r = Inl e) \<and>
    filter isDeployEntity (trace w1) = filter isDeployEntity (trace w) \<and>
    length (trace w) \<le> length (trace w1) \<and>
    (\<forall>args built. BuildEntity args \<in> set (callsDuring w w1) \<longrightarrow>
        buildEntity (contentClient env) args = Inr built \<longrightarrow> r = Inl IdentityNotFound)"
  using assms
  unfolding attempt_defs callsDuring_def
  by (auto simp add: prog_simps filter_fetches not_a_fetch split: sum.splits option.splits prod.splits)

lemma debug_calls:
  assumes "DEBUG (config env)"
    and "(r, w') = publishSceneState env sceneId sceneName sceneDescription sceneScreenshot sceneState w"
  shows "\<exists>extra. trace w' = trace w @ extra \<and> filter isDeployEntity extra = [] \<and>
    filter isBuildEntity extra = [] \<and> filter isFetch extra = []"
  using assms
  by (simp add: publishSceneState_def prog_simps await_savePersistent split: sum.splits)

text \<open>
  C1, as amended: a \<^verbatim>\<open>publishSceneState\<close> made with no signed-in identity calls
  \<^verbatim>\<open>deployEntity\<close> zero times. Outside the debug build, once the state is converted to the
  storable format, it returns \<^verbatim>\<open>{ok: false, error}\<close>; whenever the attempt gets as far as a
  \<^verbatim>\<open>buildEntity\<close> that resolves, the error is
  \<^verbatim>\<open>Error: Identity not found when trying to deploy an entity\<close>.
\<close>

theorem publish_signed_out:
  assumes "currentIdentity w = None"
    and "publishSceneState env sceneId sceneName sceneDescription sceneScreenshot sceneState w = (r, w')"
  shows "filter isDeployEntity (trace w') = filter isDeployEntity (trace w) \<and>
    (\<forall>storable. \<not> DEBUG (config env) \<longrightarrow>
        fromSerializedStateToStorableFormat (translators env) sceneState = Inr storable \<longrightarrow>
        (\<exists>msg. r = Inr (Failed msg))) \<and>
    (\<forall>args built. BuildEntity args \<in> set (callsDuring w w') \<longrightarrow>
        buildEntity (contentClient env) args = Inr built \<longrightarrow>
        r = Inr (Failed ''Error: Identity not found when trying to deploy an entity'') \<and>
        reportsIdentityNotFound r)"
proof (cases "DEBUG (config env)")
  case True
  from debug_calls [OF True assms(2) [symmetric]] obtain extra where
    w': "trace w' = trace w @ extra" and extra: "filter isDeployEntity extra = []"
      "filter isBuildEntity extra = []"
    by blast
  have "BuildEntity args \<notin> set (callsDuring w w')" for args
  proof
    assume "BuildEntity args \<in> set (callsDuring w w')"
    then have "BuildEntity args \<in> set (filter isBuildEntity extra)"
      by (simp add: callsDuring_def w')
    with extra show False by simp
  qed
  with True extra show ?thesis
    by (simp add: w')
next
  case release: False
  show ?thesis
  proof (cases "fromSerializedStateToStorableFormat (translators env) sceneState")
    case (Inl e)
    with assms(2) have "w' = w"
      by (simp add: publishSceneState_release [OF release])
    then show ?thesis
      by (simp add: callsDuring_def Inl)
  next
    case (Inr storable)
    obtain r1 w1 where run:
      "publishAttempt env sceneName sceneDescription sceneScreenshot sceneState storable w = (r1, w1)"
      by (cases "publishAttempt env sceneName sceneDescription sceneScreenshot sceneState storable w")
    from attempt_signed_out [OF assms(1) run] obtain e where
      r1: "r1 = Inl e"
      and deploys: "filter isDeployEntity (trace w1) = filter isDeployEntity (trace w)"
      and grows: "length (trace w) \<le> length (trace w1)"
      and built: "\<And>args built. BuildEntity args \<in> set (callsDuring w w1) \<Longrightarrow>
          buildEntity (contentClient env) args = Inr built \<Longrightarrow> r1 = Inl IdentityNotFound"
      by blast
    from assms(2) have r: "r = Inr (Failed (render e))"
      and w': "w' = w1\<lparr>trace := trace w1 @ [LogError ''Deployment failed'' (render e),
                                          SendPublishSceneResult (Failed (render e))]\<rparr>"
      by (simp_all add: publishSceneState_release [OF release] Inr run r1)
    have calls: "callsDuring w w' = callsDuring w w1 @ [LogError ''Deployment failed'' (render e),
                                          SendPublishSceneResult (Failed (render e))]"
      using grows by (simp add: callsDuring_def w')
    have "r = Inr (Failed ''Error: Identity not found when trying to deploy an entity'') \<and>
          reportsIdentityNotFound r"
      if "BuildEntity args \<in> set (callsDuring w w')" "buildEntity (contentClient env) args = Inr built"
      for args built
    proof -
      from that(1) have "BuildEntity args \<in> set (callsDuring w w1)"
        by (simp add: calls)
      from built [OF this that(2)] r1 have "e = IdentityNotFound" by simp
      then show ?thesis by (simp add: r)
    qed
    then show ?thesis
      using r deploys by (simp add: w')
  qed
qed

lemma signed_out_run:
  "fst (publishSceneState demo_env ''scene-1'' ''T'' ''D'' ''shot'' demo_state signed_out_world) =
     Inr (Failed ''Error: Identity not found when trying to deploy an entity'')"
  by (simp add: run_defs demo_defs run_simps)

lemma signed_out_trace:
  "trace (snd (publishSceneState demo_env ''scene-1'' ''T'' ''D'' ''shot'' demo_state signed_out_world)) =
     [GetConvertedAssets [''abc''], GetBuilderAssets [''abc''], Fetch ''https://assets/Qmabc'',
      BuildEntity demo_build,
      LogError ''Deployment failed'' ''Error: Identity not found when trying to deploy an entity'',
      SendPublishSceneResult (Failed ''Error: Identity not found when trying to deploy an entity'')]"
  by (simp add: run_defs demo_defs run_simps demo_build_def demo_files_def demo_scene_json_def)

theorem publish_signed_out_witness:
  "\<not> DEBUG (config demo_env) \<and> currentIdentity signed_out_world = None \<and>
   fromSerializedStateToStorableFormat (translators demo_env) demo_state =
     Inr (spec_fromSerializedStateToStorableFormat demo_state) \<and>
   BuildEntity demo_build \<in> set (callsDuring signed_out_world
     (snd (publishSceneState demo_env ''scene-1'' ''T'' ''D'' ''shot'' demo_state signed_out_world))) \<and>
   buildEntity (contentClient demo_env) demo_build = Inr (demo_files, ''entity-1'') \<and>
   fst (publishSceneState demo_env ''scene-1'' ''T'' ''D'' ''shot'' demo_state signed_out_world) =
     Inr (Failed ''Error: Identity not found when trying to deploy an entity'') \<and>
   reportsIdentityNotFound
     (fst (publishSceneState demo_env ''scene-1'' ''T'' ''D'' ''shot'' demo_state signed_out_world)) \<and>
   filter isDeployEntity
     (trace (snd (publishSceneState demo_env ''scene-1'' ''T'' ''D'' ''shot'' demo_state signed_out_world))) = []"
proof -
  have release: "\<not> DEBUG (config demo_env)"
    by (simp add: demo_defs)
  have signed_out: "currentIdentity signed_out_world = None"
    by (simp add: demo_defs)
  have converted: "fromSerializedStateToStorableFormat (translators demo_env) demo_state =
      Inr (spec_fromSerializedStateToStorableFormat demo_state)"
    by (simp add: demo_env_def demo_translators_def)
  have built: "BuildEntity demo_build \<in> set (callsDuring signed_out_world
     (snd (publishSceneState demo_env ''scene-1'' ''T'' ''D'' ''shot'' demo_state signed_out_world)))"
    by (simp add: callsDuring_def signed_out_trace) (simp add: demo_defs)
  have resolves: "buildEntity (contentClient demo_env) demo_build = Inr (demo_files, ''entity-1'')"
    by (simp add: demo_env_def demo_client_def demo_build_def)
  have run: "publishSceneState demo_env ''scene-1'' ''T'' ''D'' ''shot'' demo_state signed_out_world =
     (fst (publishSceneState demo_env ''scene-1'' ''T'' ''D'' ''shot'' demo_state signed_out_world),
      snd (publishSceneState demo_env ''scene-1'' ''T'' ''D'' ''shot'' demo_state signed_out_world))"
    by (rule prod.collapse [symmetric])
  have "filter isDeployEntity (trace signed_out_world) = []"
    by (simp add: demo_defs)
  with publish_signed_out [OF signed_out run] release signed_out converted built resolves
  show ?thesis
    by metis
qed

text \<open>
  The claim as stated fails in the debug build, where the result is \<^verbatim>\<open>{ok: true}\<close>; when
  a step before the signature fails, here the request for the asset metadata, where the
  error reported is that step's; and when the conversion to the storable format throws,
  where the call returns no result at all.
\<close>

theorem publish_signed_out_counterexample:
  "currentIdentity signed_out_world = None \<and>
   fst (publishSceneState debug_env ''scene-1'' ''T'' ''D'' ''shot'' demo_state signed_out_world) = Inr Ok \<and>
   \<not> reportsIdentityNotFound
       (fst (publishSceneState debug_env ''scene-1'' ''T'' ''D'' ''shot'' demo_state signed_out_world)) \<and>
   fst (publishSceneState no_metadata_env ''scene-1'' ''T'' ''D'' ''shot'' demo_state signed_out_world) =
     Inr (Failed ''TypeError: Failed to fetch'') \<and>
   \<not> reportsIdentityNotFound
       (fst (publishSceneState no_metadata_env ''scene-1'' ''T'' ''D'' ''shot'' demo_state signed_out_world)) \<and>
   fst (publishSceneState no_conversion_env ''scene-1'' ''T'' ''D'' ''shot'' demo_state signed_out_world) =
     Inl (Rejected ''Error: Unknown component type'') \<and>
   \<not> reportsIdentityNotFound
       (fst (publishSceneState no_conversion_env ''scene-1'' ''T'' ''D'' ''shot'' demo_state signed_out_world))"
proof -
  have debug: "fst (publishSceneState debug_env ''scene-1'' ''T'' ''D'' ''shot'' demo_state signed_out_world) = Inr Ok"
    by (simp add: run_defs demo_defs run_simps)
  have metadata: "fst (publishSceneState no_metadata_env ''scene-1'' ''T'' ''D'' ''shot'' demo_state signed_out_world) =
     Inr (Failed ''TypeError: Failed to fetch'')"
    by (simp add: run_defs demo_defs run_simps)
  have conversion: "fst (publishSceneState no_conversion_env ''scene-1'' ''T'' ''D'' ''shot'' demo_state signed_out_world) =
     Inl (Rejected ''Error: Unknown component type'')"
    by (simp add: run_defs demo_defs run_simps)
  have "\<not> str_includes ''TypeError: Failed to fetch'' ''Identity not found''"
    by (simp add: prefix_def)
  then show ?thesis
    by (simp add: debug metadata conversion) (simp add: demo_defs)
qed

section \<open>Publishing when a download fails\<close>

lemma rejections_nonempty:
  "x \<in> set xs \<Longrightarrow> f x = Inl e \<Longrightarrow> rejections (map f xs) \<noteq> []"
  by (induction xs) (auto split: sum.splits)

lemma promise_all_rejects:
  assumes "x \<in> set xs" and "f x = Inl e"
  shows "\<exists>e'. promise_all n (map f xs) = Inl e'"
proof -
  from assms have "rejections (map f xs) \<noteq> []"
    by (rule rejections_nonempty)
  then show ?thesis
    by (cases "rejections (map f xs)") (simp_all add: promise_all_def)
qed

lemma attempt_download_fails:
  assumes "getConvertedAssets (builderApiManager env) (collectAssetIds (config env) sceneState) = Inr assets"
    and "entry \<in> set (allMappings (config env) assets)"
    and "download (platform env) entry = Inl e"
    and "publishAttempt env sceneName sceneDescription sceneScreenshot sceneState storable w = (r, w1)"
  shows "(\<exists>e'. r = Inl e') \<and>
    filter isDeployEntity (trace w1) = filter isDeployEntity (trace w) \<and>
    filter isBuildEntity (trace w1) = filter isBuildEntity (trace w)"
proof -
  from assms(2,3) have "\<exists>e'. promise_all (first_settled (platform env))
       (map (download (platform env)) (allMappings (config env) assets)) = Inl e'"
    by (rule promise_all_rejects)
  then obtain e' where
    "promise_all (first_settled (platform env))
       (map (download (platform env)) (allMappings (config env) assets)) = Inl e'"
    by blast
  with assms(1,4) show ?thesis
    unfolding publishAttempt_def getAllAssets_def getAllBuilderAssets_def downloadAssetFiles_def Let_def
    by (auto simp add: prog_simps filter_fetches split: sum.splits)
qed

text \<open>A download that was started belongs to the mappings of the resolved assets.\<close>

lemma attempt_fetched:
  assumes "(r, w1) = publishAttempt env sceneName sceneDescription sceneScreenshot sceneState storable w"
    and "Fetch url \<in> set (callsDuring w w1)"
  shows "case getConvertedAssets (builderApiManager env) (collectAssetIds (config env) sceneState) of
      Inl _ \<Rightarrow> False
    | Inr assets \<Rightarrow> \<exists>path. (path, url) \<in> set (allMappings (config env) assets)"
  using assms
  unfolding attempt_defs callsDuring_def
  by (simp add: prog_simps split: sum.splits option.splits prod.splits) force+

lemma download_rejects_any_path:
  "download pf (path, url) = Inl e \<Longrightarrow> download pf (path', url) = Inl e"
  by (auto simp add: download_def split: sum.splits)

text \<open>
  A rejected download aborts the publication: outside the debug build, when a download
  that the publication started is rejected (the \<^verbatim>\<open>fetch\<close>, the reading of the body as a
  blob or its conversion to a buffer throws), \<^verbatim>\<open>publishSceneState\<close> returns
  \<^verbatim>\<open>{ok: false, error}\<close> and neither \<^verbatim>\<open>buildEntity\<close> nor \<^verbatim>\<open>deployEntity\<close> is called.
\<close>

lemma rejected_download_aborts_publish:
  assumes "\<not> DEBUG (config env)"
    and "publishSceneState env sceneId sceneName sceneDescription sceneScreenshot sceneState w = (r, w')"
    and "Fetch url \<in> set (callsDuring w w')"
    and "download (platform env) (path, url) = Inl e"
  shows "(\<exists>msg. r = Inr (Failed msg)) \<and>
    filter isDeployEntity (trace w') = filter isDeployEntity (trace w) \<and>
    filter isBuildEntity (trace w') = filter isBuildEntity (trace w)"
proof (cases "fromSerializedStateToStorableFormat (translators env) sceneState")
  case (Inl e')
  with assms(2) have "w' = w"
    by (simp add: publishSceneState_release [OF assms(1)])
  with assms(3) show ?thesis
    by (simp add: callsDuring_def)
next
  case (Inr storable)
  obtain r1 w1 where run:
    "(r1, w1) = publishAttempt env sceneName sceneDescription sceneScreenshot sceneState storable w"
    by (cases "publishAttempt env sceneName sceneDescription sceneScreenshot sceneState storable w") simp
  from release_calls [OF assms(1,2) Inr run] obtain extra where
    calls: "callsDuring w w' = callsDuring w w1 @ extra" and w': "trace w' = trace w1 @ extra"
    and extra: "filter isDeployEntity extra = []" "filter isBuildEntity extra = []"
      "filter isFetch extra = []"
    by blast
  from assms(3) not_filtered(3) [OF extra(3)] have fetched: "Fetch url \<in> set (callsDuring w w1)"
    by (simp add: calls)
  from attempt_fetched [OF run fetched] obtain assets where
    assets: "getConvertedAssets (builderApiManager env) (collectAssetIds (config env) sceneState) = Inr assets"
    and url: "\<exists>path. (path, url) \<in> set (allMappings (config env) assets)"
    by (auto split: sum.splits)
  from url obtain path' where entry: "(path', url) \<in> set (allMappings (config env) assets)"
    by blast
  from assms(4) have rejected: "download (platform env) (path', url) = Inl e"
    by (rule download_rejects_any_path)
  from attempt_download_fails [OF assets entry rejected run [symmetric]] obtain e' where
    r1: "r1 = Inl e'"
    and deploys: "filter isDeployEntity (trace w1) = filter isDeployEntity (trace w)"
    and builds: "filter isBuildEntity (trace w1) = filter isBuildEntity (trace w)"
    by blast
  from assms(2) run [symmetric] have "r = Inr (Failed (render e'))"
    by (simp add: publishSceneState_release [OF assms(1)] Inr r1)
  then show ?thesis
    using deploys builds extra by (simp add: w')
qed

lemma failed_download_run:
  "fst (publishSceneState no_download_env ''scene-1'' ''T'' ''D'' ''shot'' demo_state demo_world) =
     Inr (Failed ''TypeError: Failed to fetch'')"
  by (simp add: run_defs demo_defs run_simps)

lemma failed_download_trace:
  "trace (snd (publishSceneState no_download_env ''scene-1'' ''T'' ''D'' ''shot'' demo_state demo_world)) =
     [GetConvertedAssets [''abc''], GetBuilderAssets [''abc''], Fetch ''https://assets/Qmabc'',
      LogError ''Deployment failed'' ''TypeError: Failed to fetch'',
      SendPublishSceneResult (Failed ''TypeError: Failed to fetch'')]"
  by (simp add: run_defs demo_defs run_simps)

lemma rejected_download_run:
  "\<not> DEBUG (config no_download_env) \<and>
   Fetch ''https://assets/Qmabc'' \<in> set (callsDuring demo_world
     (snd (publishSceneState no_download_env ''scene-1'' ''T'' ''D'' ''shot'' demo_state demo_world))) \<and>
   download (platform no_download_env) (''models/abc.glb'', ''https://assets/Qmabc'') =
     Inl (Rejected ''TypeError: Failed to fetch'') \<and>
   fst (publishSceneState no_download_env ''scene-1'' ''T'' ''D'' ''shot'' demo_state demo_world) =
     Inr (Failed ''TypeError: Failed to fetch'') \<and>
   filter isDeployEntity
     (trace (snd (publishSceneState no_download_env ''scene-1'' ''T'' ''D'' ''shot'' demo_state demo_world))) = [] \<and>
   filter isBuildEntity
     (trace (snd (publishSceneState no_download_env ''scene-1'' ''T'' ''D'' ''shot'' demo_state demo_world))) = []"
proof -
  have release: "\<not> DEBUG (config no_download_env)"
    by (simp add: demo_defs)
  have fetched: "Fetch ''https://assets/Qmabc'' \<in> set (callsDuring demo_world
     (snd (publishSceneState no_download_env ''scene-1'' ''T'' ''D'' ''shot'' demo_state demo_world)))"
    by (simp add: callsDuring_def failed_download_trace) (simp add: demo_world_def)
  have fails: "download (platform no_download_env) (''models/abc.glb'', ''https://assets/Qmabc'') =
     Inl (Rejected ''TypeError: Failed to fetch'')"
    by (simp add: download_def demo_defs)
  have run: "publishSceneState no_download_env ''scene-1'' ''T'' ''D'' ''shot'' demo_state demo_world =
     (fst (publishSceneState no_download_env ''scene-1'' ''T'' ''D'' ''shot'' demo_state demo_world),
      snd (publishSceneState no_download_env ''scene-1'' ''T'' ''D'' ''shot'' demo_state demo_world))"
    by (rule prod.collapse [symmetric])
  have "filter isDeployEntity (trace demo_world) = []" "filter isBuildEntity (trace demo_world) = []"
    by (simp_all add: demo_world_def)
  with rejected_download_aborts_publish [OF release run fetched fails] release fetched fails
    failed_download_run
  show ?thesis
    by presburger
qed


lemma not_found_trace:
  "trace (snd (publishSceneState not_found_env ''scene-1'' ''T'' ''D'' ''shot'' demo_state demo_world)) =
     [GetConvertedAssets [''abc''], GetBuilderAssets [''abc''], Fetch ''https://assets/Qmabc'',
      BuildEntity not_found_build, DeployEntity not_found_deploy,
      UpdateProjectManifest
        (demo_manifest\<lparr>project := \<lparr>project_id = ''p1'', project_title = ''T'',
           project_description = ''D'', creation_coords = None\<rparr>\<rparr>),
      UpdateProjectThumbnail ''p1'' ''shot'',
      SendPublishSceneResult Ok]"
  by (simp add: run_defs demo_defs run_simps not_found_build_def not_found_deploy_def
      not_found_files_def demo_build_def demo_deploy_def demo_scene_json_def)

text \<open>
  C2: outside the debug build, a failed download of a referenced asset file should abort
  the publication with \<^verbatim>\<open>{ok: false, error}\<close> and no call of \<^verbatim>\<open>deployEntity\<close>. The code
  does not do so for a download that the server answers with an error status: the
  \<^verbatim>\<open>fetch\<close> resolves, the status of the response is never tested, the body of the error
  page is bundled under the path of the model, the bundle is deployed and the result is
  \<^verbatim>\<open>{ok: true}\<close>.
\<close>

theorem failed_download_is_deployed:
  "\<not> DEBUG (config not_found_env) \<and>
   fetch (platform not_found_env) ''https://assets/Qmabc'' =
     Inr \<lparr>response_ok = False, response_status = 404, response_body = ''Not Found''\<rparr> \<and>
   Fetch ''https://assets/Qmabc'' \<in> set
     (trace (snd (publishSceneState not_found_env ''scene-1'' ''T'' ''D'' ''shot'' demo_state demo_world))) \<and>
   DeployEntity not_found_deploy \<in> set
     (trace (snd (publishSceneState not_found_env ''scene-1'' ''T'' ''D'' ''shot'' demo_state demo_world))) \<and>
   map_of (dd_files not_found_deploy) ''models/abc.glb'' = Some ''Not Found'' \<and>
   fst (publishSceneState not_found_env ''scene-1'' ''T'' ''D'' ''shot'' demo_state demo_world) = Inr Ok"
proof -
  have "fst (publishSceneState not_found_env ''scene-1'' ''T'' ''D'' ''shot'' demo_state demo_world) = Inr Ok"
    by (simp add: run_defs demo_defs run_simps)
  then show ?thesis
    by (simp add: not_found_trace) (simp add: demo_defs not_found_deploy_def not_found_files_def)
qed

section \<open>The files of a deployment\<close>

lemma keys_fold_update:
  "fst ` set (fold (\<lambda>(k, v). AList.update k v) kvs acc) = fst ` set kvs \<union> fst ` set acc"
proof (induction kvs arbitrary: acc)
  case Nil
  then show ?case by simp
next
  case (Cons kv kvs)
  have "fst ` set (AList.update (fst kv) (snd kv) acc) = insert (fst kv) (fst ` set acc)"
    by (simp add: dom_update)
  with Cons show ?case
    by (simp add: case_prod_unfold Un_commute)
qed

lemma distinct_fold_update:
  "distinct (map fst acc) \<Longrightarrow> distinct (map fst (fold (\<lambda>(k, v). AList.update k v) kvs acc))"
  by (induction kvs arbitrary: acc) (auto simp: distinct_update)

lemma keys_new_Map: "fst ` set (new_Map kvs) = fst ` set kvs"
  by (simp add: new_Map_def keys_fold_update)

lemma distinct_new_Map: "distinct (map fst (new_Map kvs))"
  by (simp add: new_Map_def distinct_fold_update)

lemma keys_asset_mappings:
  "fst ` set (fold (\<lambda>mp. AList.update (f mp) (g mp)) mps acc) = f ` set mps \<union> fst ` set acc"
proof (induction mps arbitrary: acc)
  case Nil
  then show ?case by simp
next
  case (Cons mp mps)
  have "fst ` set (AList.update (f mp) (g mp) acc) = insert (f mp) (fst ` set acc)"
    by (simp add: dom_update)
  with Cons show ?case
    by (simp add: Un_commute)
qed

lemma distinct_asset_mappings:
  "distinct (map fst acc) \<Longrightarrow>
   distinct (map fst (fold (\<lambda>mp. AList.update (f mp) (g mp)) mps acc))"
  by (induction mps arbitrary: acc) (auto simp: distinct_update)

lemma keys_allMappings: "fst ` set (allMappings cfg assets) = modelPaths cfg assets"
proof -
  have "fst ` set (fold (\<lambda>asset m.
             fold (\<lambda>mp. AList.update (MODELS_FOLDER cfg @ ''/'' @ mfile mp)
                                      (baseUrl asset @ ''/'' @ mhash mp))
                  (mappings asset) m) as acc)
      = (\<Union>asset \<in> set as. (\<lambda>mp. MODELS_FOLDER cfg @ ''/'' @ mfile mp) ` set (mappings asset))
          \<union> fst ` set acc" for as :: "Asset list" and acc
  proof (induction as arbitrary: acc)
    case Nil
    then show ?case by simp
  next
    case (Cons a as)
    then show ?case
      by (simp add: keys_asset_mappings Un_ac)
  qed
  then show ?thesis
    by (simp add: allMappings_def modelPaths_def)
qed

lemma distinct_allMappings: "distinct (map fst (allMappings cfg assets))"
proof -
  have "distinct (map fst acc) \<Longrightarrow> distinct (map fst (fold (\<lambda>asset m.
             fold (\<lambda>mp. AList.update (MODELS_FOLDER cfg @ ''/'' @ mfile mp)
                                      (baseUrl asset @ ''/'' @ mhash mp))
                  (mappings asset) m) as acc))" for as :: "Asset list" and acc
    by (induction as arbitrary: acc) (auto simp: distinct_asset_mappings)
  then show ?thesis
    by (simp add: allMappings_def)
qed

lemma download_path: "download pf entry = Inr (path, buffer) \<Longrightarrow> path = fst entry"
  by (cases entry) (auto simp: download_def split: sum.splits)

lemma resolutions_paths:
  "rejections (map (download pf) entries) = [] \<Longrightarrow>
   map fst (resolutions (map (download pf) entries)) = map fst entries"
proof (induction entries)
  case Nil
  then show ?case by simp
next
  case (Cons entry entries)
  then show ?case
    by (cases "download pf entry") (auto dest: download_path)
qed

lemma promise_all_paths:
  assumes "promise_all n (map (download pf) entries) = Inr result"
  shows "map fst result = map fst entries"
proof (cases "rejections (map (download pf) entries)")
  case Nil
  with assms have "result = resolutions (map (download pf) entries)"
    by (simp add: promise_all_def)
  with Nil show ?thesis
    by (simp add: resolutions_paths)
next
  case (Cons e es)
  with assms show ?thesis
    by (simp add: promise_all_def)
qed

lemma promise_all_keys:
  assumes "promise_all n (map (download pf) entries) = Inr result"
  shows "fst ` set result = fst ` set entries"
proof -
  have "set (map fst result) = set (map fst entries)"
    using promise_all_paths [OF assms] by simp
  then show ?thesis by simp
qed

text \<open>What a \<^verbatim>\<open>Map\<close> built from a list of entries binds a key to: its last entry for that key.\<close>

lemma map_of_fold_update:
  "map_of (fold (\<lambda>(k, v). AList.update k v) kvs acc) = map_of acc ++ map_of (rev kvs)"
proof (induction kvs arbitrary: acc)
  case Nil
  then show ?case by simp
next
  case (Cons kv kvs)
  have "map_of (AList.update (fst kv) (snd kv) acc) ++ map_of (rev kvs) =
        map_of acc ++ (map_of [kv] ++ map_of (rev kvs))"
    by (cases kv) (simp add: update_conv' fun_eq_iff map_add_def
        split: option.splits)
  with Cons show ?case
    by (simp add: case_prod_unfold)
qed

lemma map_of_new_Map: "map_of (new_Map kvs) = map_of (rev kvs)"
  by (simp add: new_Map_def map_of_fold_update)

lemma map_of_rev_distinct:
  "distinct (map fst kvs) \<Longrightarrow> map_of (rev kvs) = map_of kvs"
proof (induction kvs)
  case Nil
  then show ?case by simp
next
  case (Cons kv kvs)
  then have "fst kv \<notin> dom (map_of kvs)"
    by (simp add: dom_map_of_conv_image_fst)
  then have "map_of kvs (fst kv) = None"
    by blast
  with Cons show ?case
    by (cases kv) (auto simp add: fun_eq_iff map_add_def split: option.splits)
qed

lemma map_of_new_Map_idem: "map_of (new_Map (new_Map kvs)) = map_of (new_Map kvs)"
  by (simp add: map_of_new_Map [of "new_Map kvs"] map_of_rev_distinct distinct_new_Map)

lemma map_of_bundle:
  "map_of (new_Map (fixed @ new_Map models)) path =
     (case map_of (rev models) path of None \<Rightarrow> map_of (rev fixed) path | Some buffer \<Rightarrow> Some buffer)"
proof -
  have "map_of (new_Map (fixed @ new_Map models)) = map_of (rev fixed) ++ map_of (rev (new_Map models))"
    by (simp add: map_of_new_Map)
  also have "map_of (rev (new_Map models)) = map_of (rev models)"
    by (simp add: map_of_rev_distinct distinct_new_Map map_of_new_Map)
  finally show ?thesis
    by (simp add: map_add_def)
qed

lemma rejections_none:
  "rejections rs = [] \<Longrightarrow> rs = map Inr (resolutions rs)"
proof (induction rs)
  case Nil
  then show ?case by simp
next
  case (Cons r rs)
  then show ?case
    by (cases r) simp_all
qed

lemma promise_all_resolved:
  assumes "promise_all n rs = Inr result"
  shows "rs = map Inr result"
proof (cases "rejections rs")
  case Nil
  with assms have "result = resolutions rs"
    by (simp add: promise_all_def)
  with Nil show ?thesis
    by (simp add: rejections_none)
next
  case (Cons e es)
  with assms show ?thesis
    by (simp add: promise_all_def)
qed

lemma downloaded_entry:
  assumes "map (download pf) entries = map Inr result"
    and "distinct (map fst entries)"
    and "(path, url) \<in> set entries"
  shows "\<exists>buffer. download pf (path, url) = Inr (path, buffer) \<and> map_of (rev result) path = Some buffer"
proof -
  from assms(1) have paths: "map fst result = map fst entries"
  proof (induction entries arbitrary: result)
    case Nil
    then show ?case by simp
  next
    case (Cons entry entries)
    then show ?case
      by (cases result) (auto dest: download_path)
  qed
  from assms(3) have "download pf (path, url) \<in> set (map (download pf) entries)"
    by simp
  with assms(1) obtain pb where pb: "pb \<in> set result" "download pf (path, url) = Inr pb"
    by auto
  from pb(2) obtain buffer where buffer: "pb = (path, buffer)"
    by (cases pb) (auto dest: download_path)
  from assms(2) paths have distinct: "distinct (map fst result)"
    by simp
  with pb(1) have "map_of result path = Some buffer"
    by (simp add: buffer)
  with distinct pb(2) show ?thesis
    by (simp add: buffer map_of_rev_distinct)
qed

text \<open>The arguments of a \<^verbatim>\<open>buildEntity\<close> call, in terms of the steps before it.\<close>

lemma attempt_built:
  assumes "(r, w1) = publishAttempt env sceneName sceneDescription sceneScreenshot sceneState storable w"
    and "BuildEntity args \<in> set (callsDuring w w1)"
  shows "case base64ToBlob (translators env) sceneScreenshot ''image/png'' of
      Inl _ \<Rightarrow> False
    | Inr thumbnailBlob \<Rightarrow>
    (case getConvertedAssets (builderApiManager env) (collectAssetIds (config env) sceneState) of
      Inl _ \<Rightarrow> False
    | Inr assets \<Rightarrow>
    (case getBuilderAssets (builderApiManager env) (collectAssetIds (config env) sceneState) of
      Inl _ \<Rightarrow> False
    | Inr assetsArray \<Rightarrow>
    (case promise_all (first_settled (platform env))
              (map (download (platform env)) (allMappings (config env) assets)) of
      Inl _ \<Rightarrow> False
    | Inr result \<Rightarrow>
    (case createGameFile (translators env) sceneState assets of
      Inl _ \<Rightarrow> False
    | Inr gameFile \<Rightarrow>
    (case blobToBuffer (platform env) thumbnailBlob of
      Inl _ \<Rightarrow> False
    | Inr thumbnail \<Rightarrow>
        be_scene_json args = (sceneJsonData w)
          \<lparr>display := Some \<lparr>display_title = Some sceneName,
                             display_description = Some sceneDescription,
                             navmapThumbnail = Some (SCENE_THUMBNAIL (config env))\<rparr>\<rparr> \<and>
        be_files args = new_Map (
           [(DEFINITION_FILE (config env), stringify_storable (platform env) storable),
            (BUNDLED_GAME_FILE (config env), gameFile),
            (SCENE_FILE (config env), stringify_scene_json (platform env) (be_scene_json args)),
            (SCENE_THUMBNAIL (config env), thumbnail),
            (ASSETS (config env), stringify_assets (platform env) assetsArray)] @ new_Map result) \<and>
        filter isFetch (callsDuring w w1) =
          map (\<lambda>(path, url). Fetch url) (allMappings (config env) assets) \<and>
        filter isBuildEntity (callsDuring w w1) = [BuildEntity args])))))"
  using assms
  unfolding attempt_defs callsDuring_def
  by (simp add: prog_simps filter_fetches not_a_fetch
      split: sum.splits option.splits prod.splits) auto

text \<open>
  C8: outside the debug build, the file map passed to \<^verbatim>\<open>buildEntity\<close> is the \<^verbatim>\<open>Map\<close> of the
  five fixed entries (the scene definition with the stored state, the game file, the scene
  metadata, the thumbnail, the asset manifest) followed by the downloaded models. Its keys
  are exactly the five fixed paths and the paths of the models, \<^verbatim>\<open>MODELS_FOLDER/file\<close> for
  each mapping of each resolved asset; the keys are distinct, one download was started for
  each model path, and each model path holds the bytes downloaded for it. When the five
  fixed paths differ from each other and from the model paths, each fixed path holds its
  own document.
\<close>

theorem bundle_paths:
  assumes "\<not> DEBUG (config env)"
    and "publishSceneState env sceneId sceneName sceneDescription sceneScreenshot sceneState w = (r, w')"
    and "BuildEntity args \<in> set (callsDuring w w')"
  shows "\<exists>storable thumbnailBlob assets assetsArray result gameFile thumbnail.
     fromSerializedStateToStorableFormat (translators env) sceneState = Inr storable \<and>
     base64ToBlob (translators env) sceneScreenshot ''image/png'' = Inr thumbnailBlob \<and>
     getConvertedAssets (builderApiManager env) (collectAssetIds (config env) sceneState) = Inr assets \<and>
     getBuilderAssets (builderApiManager env) (collectAssetIds (config env) sceneState) = Inr assetsArray \<and>
     map (download (platform env)) (allMappings (config env) assets) = map Inr result \<and>
     createGameFile (translators env) sceneState assets = Inr gameFile \<and>
     blobToBuffer (platform env) thumbnailBlob = Inr thumbnail \<and>
     be_scene_json args = (sceneJsonData w)
          \<lparr>display := Some \<lparr>display_title = Some sceneName,
                             display_description = Some sceneDescription,
                             navmapThumbnail = Some (SCENE_THUMBNAIL (config env))\<rparr>\<rparr> \<and>
     be_files args = new_Map (
           [(DEFINITION_FILE (config env), stringify_storable (platform env) storable),
            (BUNDLED_GAME_FILE (config env), gameFile),
            (SCENE_FILE (config env), stringify_scene_json (platform env) (be_scene_json args)),
            (SCENE_THUMBNAIL (config env), thumbnail),
            (ASSETS (config env), stringify_assets (platform env) assetsArray)] @ new_Map result) \<and>
     fst ` set (be_files args) = fixedPaths (config env) \<union> modelPaths (config env) assets \<and>
     distinct (map fst (be_files args)) \<and>
     filter isBuildEntity (callsDuring w w') = [BuildEntity args] \<and>
     filter isFetch (callsDuring w w') =
       map (\<lambda>(path, url). Fetch url) (allMappings (config env) assets) \<and>
     fst ` set (allMappings (config env) assets) = modelPaths (config env) assets \<and>
     distinct (map fst (allMappings (config env) assets)) \<and>
     (\<forall>(path, url) \<in> set (allMappings (config env) assets).
        \<exists>buffer. download (platform env) (path, url) = Inr (path, buffer) \<and>
          map_of (be_files args) path = Some buffer) \<and>
     (distinct [DEFINITION_FILE (config env), BUNDLED_GAME_FILE (config env), SCENE_FILE (config env),
                SCENE_THUMBNAIL (config env), ASSETS (config env)] \<and>
      fixedPaths (config env) \<inter> modelPaths (config env) assets = {} \<longrightarrow>
        map_of (be_files args) (DEFINITION_FILE (config env)) =
          Some (stringify_storable (platform env) storable) \<and>
        map_of (be_files args) (BUNDLED_GAME_FILE (config env)) = Some gameFile \<and>
        map_of (be_files args) (SCENE_FILE (config env)) =
          Some (stringify_scene_json (platform env) (be_scene_json args)) \<and>
        map_of (be_files args) (SCENE_THUMBNAIL (config env)) = Some thumbnail \<and>
        map_of (be_files args) (ASSETS (config env)) =
          Some (stringify_assets (platform env) assetsArray))"
proof (cases "fromSerializedStateToStorableFormat (translators env) sceneState")
  case (Inl e)
  with assms(2) have "w' = w"
    by (simp add: publishSceneState_release [OF assms(1)])
  with assms(3) show ?thesis
    by (simp add: callsDuring_def)
next
  case (Inr storable)
  obtain r1 w1 where run:
    "(r1, w1) = publishAttempt env sceneName sceneDescription sceneScreenshot sceneState storable w"
    by (cases "publishAttempt env sceneName sceneDescription sceneScreenshot sceneState storable w") simp
  from release_calls [OF assms(1,2) Inr run] obtain extra where
    calls: "callsDuring w w' = callsDuring w w1 @ extra"
    and extra: "filter isBuildEntity extra = []" "filter isFetch extra = []"
    by blast
  from assms(3) not_filtered(2) [OF extra(1)] have built: "BuildEntity args \<in> set (callsDuring w w1)"
    by (simp add: calls)
  from attempt_built [OF run built] obtain thumbnailBlob assets assetsArray result gameFile thumbnail
    where thumbnailBlob: "base64ToBlob (translators env) sceneScreenshot ''image/png'' = Inr thumbnailBlob"
    and assets: "getConvertedAssets (builderApiManager env) (collectAssetIds (config env) sceneState) = Inr assets"
    and assetsArray: "getBuilderAssets (builderApiManager env) (collectAssetIds (config env) sceneState) = Inr assetsArray"
    and result: "promise_all (first_settled (platform env))
              (map (download (platform env)) (allMappings (config env) assets)) = Inr result"
    and gameFile: "createGameFile (translators env) sceneState assets = Inr gameFile"
    and thumbnail: "blobToBuffer (platform env) thumbnailBlob = Inr thumbnail"
    and scene: "be_scene_json args = (sceneJsonData w)
          \<lparr>display := Some \<lparr>display_title = Some sceneName,
                             display_description = Some sceneDescription,
                             navmapThumbnail = Some (SCENE_THUMBNAIL (config env))\<rparr>\<rparr>"
    and files: "be_files args = new_Map (
           [(DEFINITION_FILE (config env), stringify_storable (platform env) storable),
            (BUNDLED_GAME_FILE (config env), gameFile),
            (SCENE_FILE (config env), stringify_scene_json (platform env) (be_scene_json args)),
            (SCENE_THUMBNAIL (config env), thumbnail),
            (ASSETS (config env), stringify_assets (platform env) assetsArray)] @ new_Map result)"
    and fetches: "filter isFetch (callsDuring w w1) =
              map (\<lambda>(path, url). Fetch url) (allMappings (config env) assets)"
    and builds: "filter isBuildEntity (callsDuring w w1) = [BuildEntity args]"
    by (auto split: sum.splits)
  have resolved: "map (download (platform env)) (allMappings (config env) assets) = map Inr result"
    using result by (rule promise_all_resolved)
  have models: "fst ` set result = modelPaths (config env) assets"
    using promise_all_keys [OF result] by (simp add: keys_allMappings)
  have keys: "fst ` set (be_files args) = fixedPaths (config env) \<union> modelPaths (config env) assets"
    by (simp add: files keys_new_Map models fixedPaths_def image_Un)
  have distinct: "distinct (map fst (be_files args))"
    by (simp add: files distinct_new_Map)
  have downloaded: "\<exists>buffer. download (platform env) (path, url) = Inr (path, buffer) \<and>
          map_of (be_files args) path = Some buffer"
    if "(path, url) \<in> set (allMappings (config env) assets)" for path url
  proof -
    from downloaded_entry [OF resolved distinct_allMappings that] obtain buffer where
      "download (platform env) (path, url) = Inr (path, buffer)" "map_of (rev result) path = Some buffer"
      by blast
    then show ?thesis
      by (simp only: files map_of_bundle option.case) simp
  qed
  have fixed: "map_of (be_files args) path =
      map_of [(DEFINITION_FILE (config env), stringify_storable (platform env) storable),
            (BUNDLED_GAME_FILE (config env), gameFile),
            (SCENE_FILE (config env), stringify_scene_json (platform env) (be_scene_json args)),
            (SCENE_THUMBNAIL (config env), thumbnail),
            (ASSETS (config env), stringify_assets (platform env) assetsArray)] path"
    if "distinct [DEFINITION_FILE (config env), BUNDLED_GAME_FILE (config env), SCENE_FILE (config env),
                SCENE_THUMBNAIL (config env), ASSETS (config env)]"
      and "path \<notin> modelPaths (config env) assets" for path
  proof -
    from that(2) have "path \<notin> fst ` set (rev result)"
      by (simp add: models)
    then have "map_of (rev result) path = None"
      by (simp add: map_of_eq_None_iff)
    moreover have "map_of (rev [(DEFINITION_FILE (config env), stringify_storable (platform env) storable),
            (BUNDLED_GAME_FILE (config env), gameFile),
            (SCENE_FILE (config env), stringify_scene_json (platform env) (be_scene_json args)),
            (SCENE_THUMBNAIL (config env), thumbnail),
            (ASSETS (config env), stringify_assets (platform env) assetsArray)]) =
        map_of [(DEFINITION_FILE (config env), stringify_storable (platform env) storable),
            (BUNDLED_GAME_FILE (config env), gameFile),
            (SCENE_FILE (config env), stringify_scene_json (platform env) (be_scene_json args)),
            (SCENE_THUMBNAIL (config env), thumbnail),
            (ASSETS (config env), stringify_assets (platform env) assetsArray)]"
      using that(1) by (intro map_of_rev_distinct) simp
    ultimately show ?thesis
      by (simp only: files map_of_bundle option.case)
  qed
  have bound: "map_of (be_files args) (DEFINITION_FILE (config env)) =
          Some (stringify_storable (platform env) storable) \<and>
        map_of (be_files args) (BUNDLED_GAME_FILE (config env)) = Some gameFile \<and>
        map_of (be_files args) (SCENE_FILE (config env)) =
          Some (stringify_scene_json (platform env) (be_scene_json args)) \<and>
        map_of (be_files args) (SCENE_THUMBNAIL (config env)) = Some thumbnail \<and>
        map_of (be_files args) (ASSETS (config env)) =
          Some (stringify_assets (platform env) assetsArray)"
    if different: "distinct [DEFINITION_FILE (config env), BUNDLED_GAME_FILE (config env), SCENE_FILE (config env),
                SCENE_THUMBNAIL (config env), ASSETS (config env)]"
      and disjoint: "fixedPaths (config env) \<inter> modelPaths (config env) assets = {}"
  proof -
    from disjoint have "DEFINITION_FILE (config env) \<notin> modelPaths (config env) assets"
      "BUNDLED_GAME_FILE (config env) \<notin> modelPaths (config env) assets"
      "SCENE_FILE (config env) \<notin> modelPaths (config env) assets"
      "SCENE_THUMBNAIL (config env) \<notin> modelPaths (config env) assets"
      "ASSETS (config env) \<notin> modelPaths (config env) assets"
      by (auto simp add: fixedPaths_def)
    then show ?thesis
      using different by (auto simp add: fixed [OF different])
  qed
  have parts: "filter isBuildEntity (callsDuring w w') = [BuildEntity args]"
    "filter isFetch (callsDuring w w') = map (\<lambda>(path, url). Fetch url) (allMappings (config env) assets)"
    by (simp_all add: calls extra fetches builds)
  show ?thesis
    apply (rule exI [of _ storable], rule exI [of _ thumbnailBlob], rule exI [of _ assets])
    apply (rule exI [of _ assetsArray], rule exI [of _ result], rule exI [of _ gameFile])
    apply (rule exI [of _ thumbnail])
    apply (intro conjI)
    subgoal by (rule Inr)
    subgoal by (rule thumbnailBlob)
    subgoal by (rule assets)
    subgoal by (rule assetsArray)
    subgoal by (rule resolved)
    subgoal by (rule gameFile)
    subgoal by (rule thumbnail)
    subgoal by (rule scene)
    subgoal by (rule files)
    subgoal by (rule keys)
    subgoal by (rule distinct)
    subgoal by (rule parts(1))
    subgoal by (rule parts(2))
    subgoal by (rule keys_allMappings)
    subgoal by (rule distinct_allMappings)
    subgoal using downloaded by blast
    subgoal using bound by blast
    done
qed

lemma demo_trace:
  "trace (snd (publishSceneState demo_env ''scene-1'' ''T'' ''D'' ''shot'' demo_state demo_world)) =
     [GetConvertedAssets [''abc''], GetBuilderAssets [''abc''], Fetch ''https://assets/Qmabc'',
      BuildEntity demo_build, DeployEntity demo_deploy,
      UpdateProjectManifest
        (demo_manifest\<lparr>project := \<lparr>project_id = ''p1'', project_title = ''T'',
           project_description = ''D'', creation_coords = None\<rparr>\<rparr>),
      UpdateProjectThumbnail ''p1'' ''shot'',
      SendPublishSceneResult Ok]"
  by (simp add: run_defs demo_defs run_simps demo_build_def demo_deploy_def demo_files_def
      demo_scene_json_def)

theorem bundle_paths_witness:
  "\<not> DEBUG (config demo_env) \<and>
   BuildEntity demo_build \<in> set (callsDuring demo_world
     (snd (publishSceneState demo_env ''scene-1'' ''T'' ''D'' ''shot'' demo_state demo_world))) \<and>
   distinct [DEFINITION_FILE (config demo_env), BUNDLED_GAME_FILE (config demo_env),
     SCENE_FILE (config demo_env), SCENE_THUMBNAIL (config demo_env), ASSETS (config demo_env)] \<and>
   fixedPaths (config demo_env) \<inter> modelPaths (config demo_env)
      [(''abc'', \<lparr>baseUrl = ''https://assets'',
                   mappings = [\<lparr>mfile = ''abc.glb'', mhash = ''Qmabc''\<rparr>], asset_rest = []\<rparr>)] = {} \<and>
   (''models/abc.glb'', ''https://assets/Qmabc'') \<in> set (allMappings (config demo_env)
      [(''abc'', \<lparr>baseUrl = ''https://assets'',
                   mappings = [\<lparr>mfile = ''abc.glb'', mhash = ''Qmabc''\<rparr>], asset_rest = []\<rparr>)]) \<and>
   download (platform demo_env) (''models/abc.glb'', ''https://assets/Qmabc'') =
     Inr (''models/abc.glb'', ''https://assets/Qmabc'') \<and>
   fst ` set (be_files demo_build) =
     {''scene-state-definition.json'', ''bin/game.js'', ''scene.json'', ''scene-thumbnail.png'',
      ''assets.json'', ''models/abc.glb''} \<and>
   map_of (be_files demo_build) ''models/abc.glb'' = Some ''https://assets/Qmabc'' \<and>
   map_of (be_files demo_build) ''scene-state-definition.json'' = Some ''{entities}'' \<and>
   map_of (be_files demo_build) ''bin/game.js'' = Some ''game'' \<and>
   map_of (be_files demo_build) ''scene.json'' = Some ''{scene}'' \<and>
   map_of (be_files demo_build) ''scene-thumbnail.png'' = Some ''shot'' \<and>
   map_of (be_files demo_build) ''assets.json'' = Some ''[assets]'' \<and>
   filter isFetch (callsDuring demo_world
     (snd (publishSceneState demo_env ''scene-1'' ''T'' ''D'' ''shot'' demo_state demo_world))) =
     [Fetch ''https://assets/Qmabc'']"
proof -
  let ?assets = "[(''abc'', \<lparr>baseUrl = ''https://assets'',
                   mappings = [\<lparr>mfile = ''abc.glb'', mhash = ''Qmabc''\<rparr>], asset_rest = []\<rparr>)]"
  have release: "\<not> DEBUG (config demo_env)"
    by (simp add: demo_defs)
  have run: "publishSceneState demo_env ''scene-1'' ''T'' ''D'' ''shot'' demo_state demo_world =
     (fst (publishSceneState demo_env ''scene-1'' ''T'' ''D'' ''shot'' demo_state demo_world),
      snd (publishSceneState demo_env ''scene-1'' ''T'' ''D'' ''shot'' demo_state demo_world))"
    by (rule prod.collapse [symmetric])
  have built: "BuildEntity demo_build \<in> set (callsDuring demo_world
     (snd (publishSceneState demo_env ''scene-1'' ''T'' ''D'' ''shot'' demo_state demo_world)))"
    by (simp add: callsDuring_def demo_trace) (simp add: demo_world_def)
  have different: "distinct [DEFINITION_FILE (config demo_env), BUNDLED_GAME_FILE (config demo_env),
     SCENE_FILE (config demo_env), SCENE_THUMBNAIL (config demo_env), ASSETS (config demo_env)]"
    by (simp add: demo_env_def demo_config_def)
  have models: "modelPaths (config demo_env) ?assets = {''models/abc.glb''}"
    by (simp add: modelPaths_def demo_env_def demo_config_def)
  have fixed: "fixedPaths (config demo_env) =
     {''scene-state-definition.json'', ''bin/game.js'', ''scene.json'', ''scene-thumbnail.png'',
      ''assets.json''}"
    by (simp add: fixedPaths_def demo_env_def demo_config_def)
  have disjoint: "fixedPaths (config demo_env) \<inter> modelPaths (config demo_env) ?assets = {}"
    by (simp add: models fixed)
  have entries: "allMappings (config demo_env) ?assets = [(''models/abc.glb'', ''https://assets/Qmabc'')]"
    by (simp add: allMappings_def demo_env_def demo_config_def)
  have downloaded: "download (platform demo_env) (''models/abc.glb'', ''https://assets/Qmabc'') =
     Inr (''models/abc.glb'', ''https://assets/Qmabc'')"
    by (simp add: download_def blobToBuffer_def demo_env_def demo_platform_def)
  have steps: "fromSerializedStateToStorableFormat (translators demo_env) demo_state =
      Inr (spec_fromSerializedStateToStorableFormat demo_state)"
    "getConvertedAssets (builderApiManager demo_env) (collectAssetIds (config demo_env) demo_state) =
      Inr ?assets"
    "createGameFile (translators demo_env) demo_state ?assets = Inr ''game''"
    "base64ToBlob (translators demo_env) ''shot'' ''image/png'' = Inr ''shot''"
    "blobToBuffer (platform demo_env) ''shot'' = Inr ''shot''"
    by (simp_all add: demo_env_def demo_api_def demo_translators_def demo_platform_def
        collectAssetIds_demo blobToBuffer_def demo_build_def)
  from bundle_paths [OF release run built]
  obtain storable thumbnailBlob assets assetsArray result gameFile thumbnail where
    found: "fromSerializedStateToStorableFormat (translators demo_env) demo_state = Inr storable"
      "base64ToBlob (translators demo_env) ''shot'' ''image/png'' = Inr thumbnailBlob"
      "getConvertedAssets (builderApiManager demo_env) (collectAssetIds (config demo_env) demo_state) =
        Inr assets"
      "getBuilderAssets (builderApiManager demo_env) (collectAssetIds (config demo_env) demo_state) =
        Inr assetsArray"
      "createGameFile (translators demo_env) demo_state assets = Inr gameFile"
      "blobToBuffer (platform demo_env) thumbnailBlob = Inr thumbnail"
    and keys: "fst ` set (be_files demo_build) =
        fixedPaths (config demo_env) \<union> modelPaths (config demo_env) assets"
    and fetches: "filter isFetch (callsDuring demo_world
        (snd (publishSceneState demo_env ''scene-1'' ''T'' ''D'' ''shot'' demo_state demo_world))) =
        map (\<lambda>(path, url). Fetch url) (allMappings (config demo_env) assets)"
    and model: "\<forall>(path, url) \<in> set (allMappings (config demo_env) assets).
        \<exists>buffer. download (platform demo_env) (path, url) = Inr (path, buffer) \<and>
          map_of (be_files demo_build) path = Some buffer"
    and bound: "distinct [DEFINITION_FILE (config demo_env), BUNDLED_GAME_FILE (config demo_env),
                SCENE_FILE (config demo_env), SCENE_THUMBNAIL (config demo_env), ASSETS (config demo_env)] \<and>
      fixedPaths (config demo_env) \<inter> modelPaths (config demo_env) assets = {} \<longrightarrow>
        map_of (be_files demo_build) (DEFINITION_FILE (config demo_env)) =
          Some (stringify_storable (platform demo_env) storable) \<and>
        map_of (be_files demo_build) (BUNDLED_GAME_FILE (config demo_env)) = Some gameFile \<and>
        map_of (be_files demo_build) (SCENE_FILE (config demo_env)) =
          Some (stringify_scene_json (platform demo_env) (be_scene_json demo_build)) \<and>
        map_of (be_files demo_build) (SCENE_THUMBNAIL (config demo_env)) = Some thumbnail \<and>
        map_of (be_files demo_build) (ASSETS (config demo_env)) =
          Some (stringify_assets (platform demo_env) assetsArray)"
    by (elim exE conjE) (rule that, assumption+)
  from found steps have settled: "storable = spec_fromSerializedStateToStorableFormat demo_state"
    "thumbnailBlob = ''shot''" "assets = ?assets"
    by simp_all
  with found steps have settled': "gameFile = ''game''" "thumbnail = ''shot''"
    by simp_all
  have strings: "stringify_storable (platform demo_env) a = ''{entities}''"
    "stringify_scene_json (platform demo_env) b = ''{scene}''"
    "stringify_assets (platform demo_env) c = ''[assets]''" for a b c
    by (simp_all add: demo_env_def demo_platform_def)
  have names: "DEFINITION_FILE (config demo_env) = ''scene-state-definition.json''"
    "BUNDLED_GAME_FILE (config demo_env) = ''bin/game.js''"
    "SCENE_FILE (config demo_env) = ''scene.json''"
    "SCENE_THUMBNAIL (config demo_env) = ''scene-thumbnail.png''"
    "ASSETS (config demo_env) = ''assets.json''"
    by (simp_all add: demo_env_def demo_config_def)
  from model have "map_of (be_files demo_build) ''models/abc.glb'' = Some ''https://assets/Qmabc''"
    by (simp add: settled entries downloaded)
  moreover from bound different disjoint have
    "map_of (be_files demo_build) ''scene-state-definition.json'' = Some ''{entities}''"
    "map_of (be_files demo_build) ''bin/game.js'' = Some ''game''"
    "map_of (be_files demo_build) ''scene.json'' = Some ''{scene}''"
    "map_of (be_files demo_build) ''scene-thumbnail.png'' = Some ''shot''"
    "map_of (be_files demo_build) ''assets.json'' = Some ''[assets]''"
    by (simp_all only: settled settled' names strings simp_thms)
  moreover from keys have "fst ` set (be_files demo_build) =
     {''scene-state-definition.json'', ''bin/game.js'', ''scene.json'', ''scene-thumbnail.png'',
      ''assets.json'', ''models/abc.glb''}"
    by (simp only: settled models fixed) auto
  moreover from fetches have "filter isFetch (callsDuring demo_world
     (snd (publishSceneState demo_env ''scene-1'' ''T'' ''D'' ''shot'' demo_state demo_world))) =
     [Fetch ''https://assets/Qmabc'']"
    by (simp add: settled entries)
  ultimately show ?thesis
    using release built different disjoint downloaded
    by (simp only: entries names simp_thms list.set insertI1)
qed

section \<open>Publishing when the update of the project fails\<close>

lemma attempt_update_fails:
  assumes "publishAttempt env sceneName sceneDescription sceneScreenshot sceneState storable w = (r, w1)"
    and "DeployEntity d \<in> set (callsDuring w w1)"
    and "deployEntity (contentClient env) d = Inr ()"
    and "builderManifest w = Some m"
    and "base64ToBlob (translators env) sceneScreenshot ''image/png'' = Inr thumbnailBlob"
    and "fst (updateProjectDetails env sceneState sceneName sceneDescription thumbnailBlob
           (w\<lparr>builderManifest := Some (m\<lparr>project := (project m)\<lparr>creation_coords := None\<rparr>\<rparr>)\<rparr>)) = Inl e"
  shows "r = Inl e \<and> filter isDeployEntity (callsDuring w w1) = [DeployEntity d]"
  using assms
  unfolding attempt_defs callsDuring_def
  by (auto simp add: prog_simps filter_fetches not_a_fetch split: sum.splits option.splits prod.splits)

text \<open>
  C3, as amended: outside the debug build, when \<^verbatim>\<open>deployEntity\<close> has been called and has
  resolved, and the update of the project that follows (\<^verbatim>\<open>updateProjectDetails\<close>, run on
  the manifest whose creation coordinates were just cleared) fails with an error,
  \<^verbatim>\<open>publishSceneState\<close> returns \<^verbatim>\<open>{ok: false, error}\<close> with that error, logs it as a failed
  deployment and notifies the renderer of the failure. The deployment is not rolled back:
  it stays the only call of \<^verbatim>\<open>deployEntity\<close>.
\<close>

theorem failed_update_fails_publish:
  assumes "\<not> DEBUG (config env)"
    and "publishSceneState env sceneId sceneName sceneDescription sceneScreenshot sceneState w = (r, w')"
    and "DeployEntity d \<in> set (callsDuring w w')"
    and "deployEntity (contentClient env) d = Inr ()"
    and "builderManifest w = Some m"
    and "base64ToBlob (translators env) sceneScreenshot ''image/png'' = Inr thumbnailBlob"
    and "fst (updateProjectDetails env sceneState sceneName sceneDescription thumbnailBlob
           (w\<lparr>builderManifest := Some (m\<lparr>project := (project m)\<lparr>creation_coords := None\<rparr>\<rparr>)\<rparr>)) = Inl e"
  shows "r = Inr (Failed (render e)) \<and>
    filter isDeployEntity (callsDuring w w') = [DeployEntity d] \<and>
    LogError ''Deployment failed'' (render e) \<in> set (callsDuring w w') \<and>
    last (trace w') = SendPublishSceneResult (Failed (render e))"
proof (cases "fromSerializedStateToStorableFormat (translators env) sceneState")
  case (Inl e')
  with assms(2) have "w' = w"
    by (simp add: publishSceneState_release [OF assms(1)])
  with assms(3) show ?thesis
    by (simp add: callsDuring_def)
next
  case (Inr storable)
  obtain r1 w1 where run:
    "(r1, w1) = publishAttempt env sceneName sceneDescription sceneScreenshot sceneState storable w"
    by (cases "publishAttempt env sceneName sceneDescription sceneScreenshot sceneState storable w") simp
  have grows: "length (trace w) \<le> length (trace w1)"
    using run by (rule attempt_trace_grows)
  have "\<exists>extra. trace w' = trace w1 @ extra \<and> filter isDeployEntity extra = []"
    using assms(2) run [symmetric]
    by (cases r1) (auto simp add: publishSceneState_release [OF assms(1)] Inr)
  then obtain extra where w1: "trace w' = trace w1 @ extra" and extra: "filter isDeployEntity extra = []"
    by blast
  have "DeployEntity d \<notin> set extra"
  proof
    assume "DeployEntity d \<in> set extra"
    then have "DeployEntity d \<in> set (filter isDeployEntity extra)" by simp
    with extra show False by simp
  qed
  with assms(3) grows have deployed: "DeployEntity d \<in> set (callsDuring w w1)"
    by (simp add: callsDuring_def w1)
  from attempt_update_fails [OF run [symmetric] deployed assms(4-7)]
  have r1: "r1 = Inl e" and deploys: "filter isDeployEntity (callsDuring w w1) = [DeployEntity d]"
    by simp_all
  from assms(2) run [symmetric] have r: "r = Inr (Failed (render e))"
    and w': "trace w' = trace w1 @ [LogError ''Deployment failed'' (render e),
                                    SendPublishSceneResult (Failed (render e))]"
    by (auto simp add: publishSceneState_release [OF assms(1)] Inr r1)
  have "callsDuring w w' = callsDuring w w1 @ [LogError ''Deployment failed'' (render e),
                                    SendPublishSceneResult (Failed (render e))]"
    using grows by (simp add: callsDuring_def w')
  with r deploys show ?thesis
    by (simp add: w')
qed

lemma no_update_trace:
  "trace (snd (publishSceneState no_update_env ''scene-1'' ''T'' ''D'' ''shot'' demo_state demo_world)) =
     [GetConvertedAssets [''abc''], GetBuilderAssets [''abc''], Fetch ''https://assets/Qmabc'',
      BuildEntity demo_build, DeployEntity demo_deploy,
      UpdateProjectManifest
        (demo_manifest\<lparr>project := \<lparr>project_id = ''p1'', project_title = ''T'',
           project_description = ''D'', creation_coords = None\<rparr>\<rparr>),
      LogError ''Deployment failed'' ''Error: 500'',
      SendPublishSceneResult (Failed ''Error: 500'')]"
  by (simp add: run_defs demo_defs run_simps demo_build_def demo_deploy_def demo_files_def
      demo_scene_json_def)

lemma no_update_result:
  "fst (publishSceneState no_update_env ''scene-1'' ''T'' ''D'' ''shot'' demo_state demo_world) =
     Inr (Failed ''Error: 500'')"
  by (simp add: run_defs demo_defs run_simps)

lemma no_update_fails:
  "fst (updateProjectDetails no_update_env demo_state ''T'' ''D'' ''shot''
     (demo_world\<lparr>builderManifest :=
        Some (demo_manifest\<lparr>project := (project demo_manifest)\<lparr>creation_coords := None\<rparr>\<rparr>)\<rparr>)) =
   Inl (Rejected ''Error: 500'')"
  by (simp add: updateProjectDetails_def getIdentity_def Let_def demo_defs run_simps)

theorem failed_update_fails_publish_witness:
  "\<not> DEBUG (config no_update_env) \<and>
   DeployEntity demo_deploy \<in> set (callsDuring demo_world
     (snd (publishSceneState no_update_env ''scene-1'' ''T'' ''D'' ''shot'' demo_state demo_world))) \<and>
   deployEntity (contentClient no_update_env) demo_deploy = Inr () \<and>
   fst (publishSceneState no_update_env ''scene-1'' ''T'' ''D'' ''shot'' demo_state demo_world) =
     Inr (Failed ''Error: 500'') \<and>
   filter isDeployEntity (callsDuring demo_world
     (snd (publishSceneState no_update_env ''scene-1'' ''T'' ''D'' ''shot'' demo_state demo_world))) =
     [DeployEntity demo_deploy]"
proof -
  have release: "\<not> DEBUG (config no_update_env)"
    by (simp add: demo_defs)
  have run: "publishSceneState no_update_env ''scene-1'' ''T'' ''D'' ''shot'' demo_state demo_world =
     (fst (publishSceneState no_update_env ''scene-1'' ''T'' ''D'' ''shot'' demo_state demo_world),
      snd (publishSceneState no_update_env ''scene-1'' ''T'' ''D'' ''shot'' demo_state demo_world))"
    by (rule prod.collapse [symmetric])
  have deployed: "DeployEntity demo_deploy \<in> set (callsDuring demo_world
     (snd (publishSceneState no_update_env ''scene-1'' ''T'' ''D'' ''shot'' demo_state demo_world)))"
    by (simp add: callsDuring_def no_update_trace) (simp add: demo_world_def)
  have resolved: "deployEntity (contentClient no_update_env) demo_deploy = Inr ()"
    by (simp add: demo_defs)
  have manifest: "builderManifest demo_world = Some demo_manifest"
    by (simp add: demo_world_def)
  have thumbnail: "base64ToBlob (translators no_update_env) ''shot'' ''image/png'' = Inr ''shot''"
    by (simp add: demo_defs)
  from failed_update_fails_publish
    [OF release run deployed resolved manifest thumbnail no_update_fails] release deployed resolved
  show ?thesis
    by simp
qed

text \<open>
  The claim as stated fails: the deployment resolves, the update of the manifest is
  rejected by the backend, and the result is \<^verbatim>\<open>{ok: false, error}\<close>.
\<close>

theorem failed_update_counterexample:
  "DeployEntity demo_deploy \<in> set
     (trace (snd (publishSceneState no_update_env ''scene-1'' ''T'' ''D'' ''shot'' demo_state demo_world))) \<and>
   deployEntity (contentClient no_update_env) demo_deploy = Inr () \<and>
   updateProjectManifest (builderApiManager no_update_env)
     (demo_manifest\<lparr>project := \<lparr>project_id = ''p1'', project_title = ''T'',
           project_description = ''D'', creation_coords = None\<rparr>\<rparr>) \<lparr>rawAddress = ''0xabc''\<rparr> =
     Inl (Rejected ''Error: 500'') \<and>
   fst (publishSceneState no_update_env ''scene-1'' ''T'' ''D'' ''shot'' demo_state demo_world) =
     Inr (Failed ''Error: 500'') \<and>
   fst (publishSceneState no_update_env ''scene-1'' ''T'' ''D'' ''shot'' demo_state demo_world) \<noteq> Inr Ok"
  by (simp add: no_update_trace no_update_result) (simp add: demo_defs)

section \<open>Publishing in the debug build\<close>

text \<open>
  C10: in the debug build, when the conversion and the write to the persistent storage
  succeed, \<^verbatim>\<open>publishSceneState\<close> makes exactly two calls, the write of the storable state
  under \<^verbatim>\<open>scene-state-<sceneId>\<close> and the notification of the result to the renderer
  (no fetch, no \<^verbatim>\<open>buildEntity\<close>, no \<^verbatim>\<open>deployEntity\<close>), and returns \<^verbatim>\<open>{ok: true}\<close>. When the
  storage gives back under that key what was written, a \<^verbatim>\<open>getStoredState\<close> that follows
  makes one call, the read of the storage, and returns the stored state translated back.
\<close>

theorem debug_publish_stores_locally:
  assumes "DEBUG (config env)"
    and "fromSerializedStateToStorableFormat (translators env) sceneState = Inr storable"
    and "saveToPersistentStorage (platform env) (''scene-state-'' @ sceneId) storable (storage w) = Inr st"
    and "getFromPersistentStorage (platform env) (''scene-state-'' @ sceneId) st = Inr (Some storable)"
    and "publishSceneState env sceneId sceneName sceneDescription sceneScreenshot sceneState w = (r, w')"
  shows "r = Inr Ok \<and> storage w' = st \<and>
    callsDuring w w' =
      [SaveToPersistentStorage (''scene-state-'' @ sceneId) storable, SendPublishSceneResult Ok] \<and>
    fst (getStoredState env sceneId w') =
      (case fromStorableFormatToSerializedState (translators env) storable of
         Inl e \<Rightarrow> Inl e
       | Inr serialized \<Rightarrow> Inr (Some serialized)) \<and>
    callsDuring w' (snd (getStoredState env sceneId w')) =
      [GetFromPersistentStorage (''scene-state-'' @ sceneId)]"
proof -
  from assms(1,2,3,5) have r: "r = Inr Ok"
    and w': "w' = w\<lparr>storage := st,
        trace := trace w @ [SaveToPersistentStorage (''scene-state-'' @ sceneId) storable,
                            SendPublishSceneResult Ok]\<rparr>"
    by (auto simp add: publishSceneState_def run_simps)
  have "getStoredState env sceneId w' =
      (case fromStorableFormatToSerializedState (translators env) storable of
         Inl e \<Rightarrow> Inl e
       | Inr serialized \<Rightarrow> Inr (Some serialized),
       w'\<lparr>trace := trace w' @ [GetFromPersistentStorage (''scene-state-'' @ sceneId)]\<rparr>)"
    using assms(1,4)
    by (simp add: getStoredState_def run_simps w' split: sum.splits)
  with r show ?thesis
    by (simp add: callsDuring_def) (simp add: w')
qed

theorem debug_publish_stores_locally_witness:
  "DEBUG (config debug_env) \<and>
   fst (publishSceneState debug_env ''scene-1'' ''T'' ''D'' ''shot'' demo_state demo_world) = Inr Ok \<and>
   callsDuring demo_world
     (snd (publishSceneState debug_env ''scene-1'' ''T'' ''D'' ''shot'' demo_state demo_world)) =
     [SaveToPersistentStorage ''scene-state-scene-1'' (spec_fromSerializedStateToStorableFormat demo_state),
      SendPublishSceneResult Ok] \<and>
   fst (getStoredState debug_env ''scene-1''
     (snd (publishSceneState debug_env ''scene-1'' ''T'' ''D'' ''shot'' demo_state demo_world))) =
     Inr (Some (spec_fromStorableFormatToSerializedState
                  (spec_fromSerializedStateToStorableFormat demo_state)))"
proof -
  have debug: "DEBUG (config debug_env)"
    by (simp add: demo_defs)
  have converted: "fromSerializedStateToStorableFormat (translators debug_env) demo_state =
      Inr (spec_fromSerializedStateToStorableFormat demo_state)"
    by (simp add: debug_env_def demo_env_def demo_translators_def)
  have saved: "saveToPersistentStorage (platform debug_env) (''scene-state-'' @ ''scene-1'')
      (spec_fromSerializedStateToStorableFormat demo_state) (storage demo_world) =
      Inr ((storage demo_world)(''scene-state-'' @ ''scene-1'' \<mapsto>
             spec_fromSerializedStateToStorableFormat demo_state))"
    by (simp add: debug_env_def demo_env_def demo_platform_def)
  have loaded: "getFromPersistentStorage (platform debug_env) (''scene-state-'' @ ''scene-1'')
      ((storage demo_world)(''scene-state-'' @ ''scene-1'' \<mapsto>
             spec_fromSerializedStateToStorableFormat demo_state)) =
      Inr (Some (spec_fromSerializedStateToStorableFormat demo_state))"
    by (simp add: debug_env_def demo_env_def demo_platform_def)
  have run: "publishSceneState debug_env ''scene-1'' ''T'' ''D'' ''shot'' demo_state demo_world =
     (fst (publishSceneState debug_env ''scene-1'' ''T'' ''D'' ''shot'' demo_state demo_world),
      snd (publishSceneState debug_env ''scene-1'' ''T'' ''D'' ''shot'' demo_state demo_world))"
    by (rule prod.collapse [symmetric])
  have decoded: "fromStorableFormatToSerializedState (translators debug_env)
      (spec_fromSerializedStateToStorableFormat demo_state) =
      Inr (spec_fromStorableFormatToSerializedState (spec_fromSerializedStateToStorableFormat demo_state))"
    by (simp add: debug_env_def demo_env_def demo_translators_def)
  from debug_publish_stores_locally [OF debug converted saved loaded run] debug decoded
  show ?thesis
    by simp
qed

section \<open>The stateful scene system\<close>

lemma await_sys_call:
  "await (sys_call ev r) f s =
     (case r of
        Inl e \<Rightarrow> (Inl e, s\<lparr>calls := calls s @ [ev]\<rparr>)
      | Inr x \<Rightarrow> f x (s\<lparr>calls := calls s @ [ev]\<rparr>))"
  by (simp add: await_def sys_call_def split: sum.splits)

lemma await_sys_emit: "await (sys_emit ev) f s = f () (s\<lparr>calls := calls s @ [ev]\<rparr>)"
  by (simp add: sys_emit_def await_sys_call)

lemma sys_emit_apply: "sys_emit ev s = (Inr (), s\<lparr>calls := calls s @ [ev]\<rparr>)"
  by (simp add: sys_emit_def sys_call_def)

lemma nothing_forwarded: "\<not> forwarding s \<Longrightarrow> fold (rendererChange env) cs s = s"
  by (induction cs) (simp_all add: rendererChange_def)

lemma await_sys_await:
  "\<not> forwarding s \<Longrightarrow>
   await (sys_await env n ev r) f s =
     (case r of
        Inl e \<Rightarrow> (Inl e, s\<lparr>calls := calls s @ [ev]\<rparr>)
      | Inr x \<Rightarrow> f x (s\<lparr>calls := calls s @ [ev]\<rparr>))"
  by (simp add: await_def sys_await_def nothing_forwarded split: sum.splits)

lemma await_forwardChangesTo:
  "await forwardChangesTo f s = f () (s\<lparr>calls := calls s @ [ForwardChangesTo], forwarding := True\<rparr>)"
  by (simp add: forwardChangesTo_def await_await await_sys_emit await_modify)

lemmas sys_simps = await_sys_call await_sys_emit sys_emit_apply await_sys_await
  await_forwardChangesTo await_modify modify_apply await_await await_ret ret_apply

text \<open>
  C6: when the parcel is empty (\<^verbatim>\<open>getIsEmpty\<close> resolves with \<^verbatim>\<open>true\<close>), the initialization
  makes no call to the builder actor, sets the scene definition to a new one, which has
  zero entities, and sends the \<open>initialization finished\<close> signal.
\<close>

theorem empty_parcel_initialization:
  assumes "getParcel env = Inr sceneId"
    and "getIsEmpty env = Inr True"
  shows "systemDidEnable env s =
     (Inr (),
      s\<lparr>sceneDefinition := Some (SceneStateDefinition []),
        forwarding := True,
        calls := calls s @ [GetParcel, GetIsEmpty, ForwardChangesTo, SendInitFinished,
                            OnStateEvent ''PublishSceneState'', OnStateEvent ''SaveSceneState'',
                            OnStateEvent ''SaveProjectInfo'']\<rparr>)"
  using assms
  by (simp add: systemDidEnable_def listenToEvents_def new_SceneStateDefinition_def sys_simps)

theorem empty_parcel_initialization_witness:
  "getIsEmpty empty_parcel = Inr True \<and>
   systemDidEnable empty_parcel fresh_scene =
     (Inr (),
      \<lparr>sceneDefinition = Some (SceneStateDefinition []),
       forwarding = True,
       calls = [GetParcel, GetIsEmpty, ForwardChangesTo, SendInitFinished,
                OnStateEvent ''PublishSceneState'', OnStateEvent ''SaveSceneState'',
                OnStateEvent ''SaveProjectInfo'']\<rparr>)"
proof -
  have parcel: "getParcel empty_parcel = Inr ''scene-1''"
    by (simp add: empty_parcel_def)
  have empty: "getIsEmpty empty_parcel = Inr True"
    by (simp add: empty_parcel_def)
  from empty_parcel_initialization [OF parcel empty, of fresh_scene] empty
  show ?thesis
    by (simp add: fresh_scene_def)
qed

text \<open>
  C5: in every initialization that completes, the calls are the two parcel queries, the
  initial push when the parcel is not empty (fetch of the stored scene, sending of its
  assets, sending of the state to the renderer), then \<^verbatim>\<open>forwardChangesTo\<close>, then the
  \<open>initialization finished\<close> signal, then the subscriptions to the state events: the
  signal is sent exactly once, after the push. No change of the renderer is applied to
  the scene definition during the initialization, whatever the renderer sends while the
  awaited calls are pending; once the initialization has completed, a change of the
  renderer is applied. An initialization that fails has not completed the push, sends no
  signal and applies no change.
\<close>

theorem initialization_order:
  "case systemDidEnable env s of
     (Inr _, s') \<Rightarrow>
       (\<exists>push. drop (length (calls s)) (calls s') =
          [GetParcel, GetIsEmpty] @ push @
          [ForwardChangesTo, SendInitFinished,
           OnStateEvent ''PublishSceneState'', OnStateEvent ''SaveSceneState'',
           OnStateEvent ''SaveProjectInfo''] \<and>
          (push = [] \<and> getIsEmpty env = Inr True \<or>
           (\<exists>fetched. push = [GetInititalSceneState, SendAssetsFromScene fetched,
                              SendStateTo fetched, Log ''Sent initial load''] \<and>
                       getIsEmpty env = Inr False))) \<and>
       filter isApplied (drop (length (calls s)) (calls s')) = [] \<and>
       (\<forall>c. rendererChange env c s' =
              s'\<lparr>sceneDefinition := map_option (applyChange env c) (sceneDefinition s'),
                 calls := calls s' @ [Applied c]\<rparr>)
   | (Inl _, s') \<Rightarrow>
       SendInitFinished \<notin> set (drop (length (calls s)) (calls s')) \<and>
       filter isApplied (drop (length (calls s)) (calls s')) = [] \<and>
       (\<forall>fetched. SendStateTo fetched \<notin> set (drop (length (calls s)) (calls s')))"
  by (simp add: systemDidEnable_def listenToEvents_def rendererChange_def sys_simps
      split: sum.splits)

theorem initialization_order_witness:
  "arrivals stored_parcel 2 = [''early''] \<and>
   calls (snd (systemDidEnable stored_parcel fresh_scene)) =
     [GetParcel, GetIsEmpty,
      GetInititalSceneState, SendAssetsFromScene (SceneStateDefinition (entities demo_state)),
      SendStateTo (SceneStateDefinition (entities demo_state)), Log ''Sent initial load'',
      ForwardChangesTo, SendInitFinished,
      OnStateEvent ''PublishSceneState'', OnStateEvent ''SaveSceneState'',
      OnStateEvent ''SaveProjectInfo''] \<and>
   calls (rendererChange stored_parcel ''late'' (snd (systemDidEnable stored_parcel fresh_scene))) =
     calls (snd (systemDidEnable stored_parcel fresh_scene)) @ [Applied ''late'']"
proof -
  have completes: "fst (systemDidEnable stored_parcel fresh_scene) = Inr ()"
    by (simp add: systemDidEnable_def listenToEvents_def sys_simps stored_parcel_def fresh_scene_def)
  have stored: "getIsEmpty stored_parcel = Inr False" "arrivals stored_parcel 2 = [''early'']"
    by (simp_all add: stored_parcel_def)
  have pushed: "SendStateTo (SceneStateDefinition (entities demo_state)) \<in>
      set (calls (snd (systemDidEnable stored_parcel fresh_scene)))"
    by (simp add: systemDidEnable_def listenToEvents_def sys_simps stored_parcel_def fresh_scene_def)
  have fetched: "SendAssetsFromScene (SceneStateDefinition (entities demo_state)) \<in>
      set (calls (snd (systemDidEnable stored_parcel fresh_scene)))"
    by (simp add: systemDidEnable_def listenToEvents_def sys_simps stored_parcel_def fresh_scene_def)
  show ?thesis
    using initialization_order [where env = stored_parcel and s = fresh_scene]
      completes stored pushed fetched
    by (cases "systemDidEnable stored_parcel fresh_scene") (auto simp: fresh_scene_def)
qed

section \<open>What escapes the public operations\<close>














end
